theory Spec2Isabelle
  imports Complex_Main
begin

section \<open>Python values, exceptions and command-line arguments\<close>

text \<open>
  The script \<^verbatim>\<open>train_waterbirds.py\<close> is embedded function by function. Tensor entries and
  Python floats are modelled as real numbers (rounding is not modelled); every exception
  the script can raise on its own is a constructor of \<open>error\<close>; objects of the sibling
  modules (the network, the metrics, the attributors, the losses) are parameters.
\<close>

datatype error =
    NotImplementedError
  | AttributeError
  | TypeError
  | KeyError
  | IndexError
  | ZeroDivisionError
  | UnboundLocalError

text \<open>The values stored in a metrics dictionary or a checkpoint; \<open>'sd\<close> is a state dict.\<close>

datatype 'sd pyval =
    PNone
  | PBool bool
  | PInt int
  | PFloat real
  | PStr string
  | PStateDict 'sd

type_synonym 'sd pydict = "string \<rightharpoonup> 'sd pyval"

text \<open>The namespace produced by the argument parser, one field per \<^verbatim>\<open>add_argument\<close>.\<close>

record args =
  task :: string
  model_backbone :: string
  model_path :: "string option"
  data_path :: string
  total_epochs :: int
  learning_rate :: real
  log_path :: "string option"
  save_path :: string
  seed :: int
  train_batch_size :: int
  dataset :: string
  localization_loss_lambda :: real
  layer :: string
  localization_loss_fn :: "string option"
  attribution_method :: "string option"
  optimize_explanations :: bool
  min_acc :: real
  pareto :: bool
  annotated_fraction :: real
  evaluation_frequency :: int
  eval_batch_size :: int
  box_dilation_percentage :: real
  use_loss_weights :: bool

definition GROUP_NAMES :: "string list" where
  "GROUP_NAMES = [''Landbird_on_Land'', ''Landbird_on_Water'',
                  ''Waterbird_on_Land'', ''Waterbird_on_Water'']"

section \<open>Loss weights\<close>

text \<open>
  The weights are a tensor of 32-bit floats, so each operation on them is the exact
  result rounded to the nearest float, ties to the even significand. A float is modelled
  by the real number it denotes. \<open>normalise\<close> scales a positive number into the range of
  a 24-bit significand, \<open>2^23 \<le> m < 2^24\<close>, and counts the exponent; the rounding covers
  the normal range of the format (no subnormal numbers, no overflow), which is where the
  weights and every intermediate value lie.
\<close>

definition round_half_even :: "real \<Rightarrow> int" where
  "round_half_even x =
     (let f = \<lfloor>x\<rfloor>; r = x - of_int f
      in if r < 1 / 2 then f
         else if 1 / 2 < r then f + 1
         else if even f then f else f + 1)"

fun normalise :: "nat \<Rightarrow> real \<Rightarrow> int \<Rightarrow> real \<times> int" where
  "normalise 0 m e = (m, e)"
| "normalise (Suc fuel) m e =
     (if m < 8388608 then normalise fuel (m * 2) (e - 1)
      else if 16777216 \<le> m then normalise fuel (m / 2) (e + 1)
      else (m, e))"

definition float32 :: "real \<Rightarrow> real" where
  "float32 x =
     (if x = 0 then 0
      else let (m, e) = normalise 300 \<bar>x\<bar> 0
           in sgn x * of_int (round_half_even m) * 2 powi e)"

text \<open>
  \<^verbatim>\<open>get_loss_upweights\<close>: \<^verbatim>\<open>counts = torch.Tensor([3694, 1101]); fracs = 1 / counts;
  weights = fracs / torch.max(fracs)\<close>. A 1-dimensional tensor is a list; both divisions
  are element-wise float divisions.
\<close>

definition get_loss_upweights :: "real list" where
  "get_loss_upweights =
     (let counts = map float32 [3694, 1101];
          fracs = map (\<lambda>c. float32 (1 / c)) counts;
          weights = map (\<lambda>f. float32 (f / Max (set fracs))) fracs
      in weights)"

text \<open>The loss object built by \<^verbatim>\<open>main\<close>: a \<^verbatim>\<open>BCEWithLogitsLoss\<close> with an optional weight.\<close>

datatype loss_module = BCEWithLogitsLoss (weight: "real list option")

definition main_loss_fn :: "args \<Rightarrow> loss_module" where
  "main_loss_fn a =
     (if use_loss_weights a then BCEWithLogitsLoss (Some get_loss_upweights)
      else BCEWithLogitsLoss None)"

section \<open>Building the network\<close>

text \<open>
  The network object is described by the calls that built it: the constructor, the final
  classification layer, and the state dicts loaded into it, in the order of the calls.
\<close>

datatype ctor =
    Hubconf_resnet50 bool            \<comment> \<open>\<^verbatim>\<open>hubconf.resnet50(pretrained=...)\<close>, the B-cos ResNet-50\<close>
  | Xfixup_resnet50                  \<comment> \<open>\<^verbatim>\<open>fixup_resnet.xfixup_resnet50()\<close>\<close>
  | Torchvision_resnet50 "string option"
      \<comment> \<open>\<^verbatim>\<open>torchvision.models.resnet50(weights=...)\<close>\<close>

text \<open>
  A replacement layer takes its input width from the layer it replaces
  (\<^verbatim>\<open>in_features=model.fc.in_features\<close>) and is given its output width.
\<close>

datatype fc_layer =
    Original_fc
  | BcosConv2d fc_layer nat
  | Linear fc_layer nat

fun out_features :: "fc_layer \<Rightarrow> nat option" where
  "out_features Original_fc = None"
| "out_features (BcosConv2d old n) = Some n"
| "out_features (Linear old n) = Some n"

text \<open>\<open>State_dict_of path key strip\<close>: \<^verbatim>\<open>torch.load(path)[key]\<close>, through
  \<^verbatim>\<open>utils.remove_module\<close> when \<open>strip\<close>.\<close>

datatype state_src = State_dict_of string string bool

record net =
  net_ctor :: ctor
  net_fc :: fc_layer
  net_loaded :: "state_src list"

definition load_state_dict :: "state_src \<Rightarrow> net \<Rightarrow> net" where
  "load_state_dict s m = m\<lparr>net_loaded := net_loaded m @ [s]\<rparr>"

definition num_classes :: nat where
  "num_classes = 2"

definition xdnn_weights_file :: string where
  "xdnn_weights_file = ''weights/xdnn/xfixup_resnet50_model_best.pth.tar''"

text \<open>The backbone dispatch of \<^verbatim>\<open>main\<close>: the network and its \<^verbatim>\<open>layer_dict\<close>.\<close>

definition backbone_dispatch :: "args \<Rightarrow> error + net \<times> (string \<rightharpoonup> nat option)" where
  "backbone_dispatch a =
     (let is_bcos = (model_backbone a = ''bcos'');
          is_xdnn = (model_backbone a = ''xdnn'');
          is_vanilla = (model_backbone a = ''vanilla'')
      in if is_bcos then
           let model = \<lparr>net_ctor = Hubconf_resnet50 True, net_fc = Original_fc, net_loaded = []\<rparr>;
               model = model\<lparr>net_fc := BcosConv2d (net_fc model) num_classes\<rparr>;
               layer_dict = [''Input'' \<mapsto> None, ''Mid1'' \<mapsto> Some 3, ''Mid2'' \<mapsto> Some 4,
                             ''Mid3'' \<mapsto> Some 5, ''Final'' \<mapsto> Some 6]
           in Inr (model, layer_dict)
         else if is_xdnn then
           let model = \<lparr>net_ctor = Xfixup_resnet50, net_fc = Original_fc, net_loaded = []\<rparr>;
               model = load_state_dict (State_dict_of xdnn_weights_file ''state_dict'' True) model;
               model = model\<lparr>net_fc := Linear (net_fc model) num_classes\<rparr>;
               layer_dict = [''Input'' \<mapsto> None, ''Mid1'' \<mapsto> Some 3, ''Mid2'' \<mapsto> Some 4,
                             ''Mid3'' \<mapsto> Some 5, ''Final'' \<mapsto> Some 6]
           in Inr (model, layer_dict)
         else if is_vanilla then
           let model = \<lparr>net_ctor = Torchvision_resnet50 (Some ''IMAGENET1K_V1''),
                        net_fc = Original_fc, net_loaded = []\<rparr>;
               model = model\<lparr>net_fc := Linear (net_fc model) num_classes\<rparr>;
               layer_dict = [''Input'' \<mapsto> None, ''Mid1'' \<mapsto> Some 4, ''Mid2'' \<mapsto> Some 5,
                             ''Mid3'' \<mapsto> Some 6, ''Final'' \<mapsto> Some 7]
           in Inr (model, layer_dict)
         else Inl NotImplementedError)"

text \<open>
  \<^verbatim>\<open>main\<close> up to \<^verbatim>\<open>model.train()\<close>: the dispatch, \<^verbatim>\<open>layer_dict[args.layer]\<close>, and the
  optional restart from \<^verbatim>\<open>--model_path\<close>. The result is the network and \<^verbatim>\<open>layer_idx\<close>.
\<close>

definition build_model :: "args \<Rightarrow> error + net \<times> nat option" where
  "build_model a =
     (case backbone_dispatch a of
        Inl err \<Rightarrow> Inl err
      | Inr (model, layer_dict) \<Rightarrow>
          (case layer_dict (layer a) of
             None \<Rightarrow> Inl KeyError
           | Some layer_idx \<Rightarrow>
               (case model_path a of
                  None \<Rightarrow> Inr (model, layer_idx)
                | Some path \<Rightarrow>
                    Inr (load_state_dict (State_dict_of path ''model'' False) model, layer_idx))))"

text \<open>The weights a network starts from before any state dict of \<^verbatim>\<open>--model_path\<close>.\<close>

definition imagenet_pretrained :: "net \<Rightarrow> bool" where
  "imagenet_pretrained m =
     (case net_ctor m of
        Hubconf_resnet50 pre \<Rightarrow> pre
      | Xfixup_resnet50 \<Rightarrow>
          (case net_loaded m of
             [] \<Rightarrow> False
           | s # _ \<Rightarrow> s = State_dict_of xdnn_weights_file ''state_dict'' True)
      | Torchvision_resnet50 w \<Rightarrow> w = Some ''IMAGENET1K_V1'')"

section \<open>Loops that can raise, and Python's accumulators\<close>

text \<open>A \<^verbatim>\<open>for\<close> loop whose body can raise: the first exception ends the loop.\<close>

fun fold_err :: "('a \<Rightarrow> 's \<Rightarrow> error + 's) \<Rightarrow> 'a list \<Rightarrow> 's \<Rightarrow> error + 's" where
  "fold_err f [] s = Inr s"
| "fold_err f (x # xs) s = (case f x s of Inl err \<Rightarrow> Inl err | Inr s' \<Rightarrow> fold_err f xs s')"

text \<open>
  A running total that starts as the Python integer \<^verbatim>\<open>0\<close> and becomes a tensor with the
  first tensor added to it. \<^verbatim>\<open>.item()\<close> exists on tensors only.
\<close>

datatype accum = Py_int int | Tensor real

fun accum_value :: "accum \<Rightarrow> real" where
  "accum_value (Py_int n) = of_int n"
| "accum_value (Tensor r) = r"

definition accum_add :: "accum \<Rightarrow> real \<Rightarrow> accum" where
  "accum_add t x = Tensor (accum_value t + x)"

fun item :: "accum \<Rightarrow> error + real" where
  "item (Py_int n) = Inl AttributeError"
| "item (Tensor r) = Inr r"

fun accum_pyval :: "accum \<Rightarrow> 'sd pyval" where
  "accum_pyval (Py_int n) = PInt n"
| "accum_pyval (Tensor r) = PFloat r"

section \<open>Data and the objects of the sibling modules\<close>

text \<open>
  One batch as the collate function delivers it: the images, the label rows (one row of
  class indicators per image), the bounding-box annotation of each image (\<^verbatim>\<open>None\<close> when the
  image is not annotated) and the groups. Tensors the script never looks into have the
  type \<open>'t\<close>.
\<close>

record 't batch =
  batch_X :: "'t list"
  batch_y :: "real list list"
  batch_bbs :: "'t option list"
  batch_groups :: 't

text \<open>The network as the script sees it: its state dict and its train/eval mode.\<close>

record 'sd model =
  state_dict :: 'sd
  training :: bool

text \<open>\<^verbatim>\<open>ResNetModelActivator(model, layer, is_bcos)\<close>.\<close>

record activator =
  act_layer :: "nat option"
  act_is_bcos :: bool

text \<open>\<^verbatim>\<open>attribution_methods.get_attributor(model, method, only_positive, binarize,
  interpolate, (224, 224), batch_mode)\<close>.\<close>

record attributor =
  attr_method :: string
  attr_only_positive :: bool
  attr_binarize :: bool
  attr_interpolate :: bool
  attr_batch_mode :: bool

text \<open>A \<^verbatim>\<open>SummaryWriter\<close> is the list of scalars added to it: tag, value, step.\<close>

type_synonym 'sd summary_writer = "(string \<times> 'sd pyval \<times> nat option) list"

definition add_scalar ::
  "string \<Rightarrow> 'sd pyval \<Rightarrow> nat option \<Rightarrow> 'sd summary_writer \<Rightarrow> 'sd summary_writer" where
  "add_scalar tag v step w = w @ [(tag, v, step)]"

datatype transform =
    AddInverse nat
  | Normalize "real list" "real list"
  | RandomResizedCrop nat nat
  | RandomHorizontalFlip
  | Compose "transform list"

text \<open>\<^verbatim>\<open>datasets.WaterbirdsDetectParsed(root, image_set, transform, annotated_fraction)\<close>.\<close>

record WaterbirdsDetectParsed =
  ds_root :: string
  ds_image_set :: string
  ds_transform :: transform
  ds_annotated_fraction :: "real option"

text \<open>
  What the sibling modules and the libraries compute. A metric object is the list of its
  \<^verbatim>\<open>update\<close> calls, and its \<^verbatim>\<open>compute\<close> is a function of that list; the same holds for the
  accuracy tracker and \<^verbatim>\<open>get_best\<close>.
\<close>

record ('sd, 't, 'o) env =
  env_len :: "WaterbirdsDetectParsed \<Rightarrow> nat"
    \<comment> \<open>\<^verbatim>\<open>len(data)\<close>\<close>
  env_loader :: "WaterbirdsDetectParsed \<Rightarrow> int \<Rightarrow> nat \<Rightarrow> 't batch list"
    \<comment> \<open>the batches a \<^verbatim>\<open>DataLoader\<close> of the given batch size yields on its n-th pass\<close>
  env_initial_state :: "net \<Rightarrow> 'sd"
    \<comment> \<open>the state dict of the network as built\<close>
  env_forward :: "activator \<Rightarrow> 'sd model \<Rightarrow> 't list \<Rightarrow> 't \<times> 't"
    \<comment> \<open>\<^verbatim>\<open>model_activator(X)\<close>: logits and features\<close>
  env_loss :: "loss_module \<Rightarrow> 't \<Rightarrow> real list list \<Rightarrow> real"
    \<comment> \<open>\<^verbatim>\<open>loss_fn(logits, y)\<close>\<close>
  env_optimizer :: "'sd \<Rightarrow> real \<Rightarrow> 'o"
    \<comment> \<open>\<^verbatim>\<open>torch.optim.Adam(model.parameters(), lr)\<close>\<close>
  env_step :: "'o \<Rightarrow> 'sd \<Rightarrow> 't batch \<Rightarrow> real \<Rightarrow> 'o \<times> 'sd"
    \<comment> \<open>\<^verbatim>\<open>batch_loss.backward(); optimizer.step()\<close> for this batch and loss\<close>
  env_targets :: "nat \<Rightarrow> nat \<Rightarrow> real list list \<Rightarrow> nat list"
    \<comment> \<open>\<^verbatim>\<open>utils.get_random_optimization_targets(y)\<close> in epoch e, batch i\<close>
  env_attribute_batch :: "attributor \<Rightarrow> 'sd model \<Rightarrow> 't \<Rightarrow> 't \<Rightarrow> nat list \<Rightarrow> 't list"
    \<comment> \<open>\<^verbatim>\<open>attributor(features, logits, classes=...).squeeze(1)\<close>, one map per image\<close>
  env_attribute :: "attributor \<Rightarrow> 'sd model \<Rightarrow> 't \<Rightarrow> 't \<Rightarrow> nat \<Rightarrow> nat \<Rightarrow> 't"
    \<comment> \<open>\<^verbatim>\<open>attributor(features, logits, pred, img_idx).detach().squeeze(0).squeeze(0)\<close>\<close>
  env_filter_bbs :: "'t \<Rightarrow> nat \<Rightarrow> 't"
    \<comment> \<open>\<^verbatim>\<open>utils.filter_bbs(bbs, cls, waterbirds=True)\<close>\<close>
  env_enlarge_bb :: "'t \<Rightarrow> real \<Rightarrow> 't"
    \<comment> \<open>\<^verbatim>\<open>utils.enlarge_bb(bb_list, percentage=...)\<close>\<close>
  env_loss_loc :: "string \<Rightarrow> 't \<Rightarrow> 't \<Rightarrow> real"
    \<comment> \<open>\<^verbatim>\<open>losses.get_localization_loss(name)(attributions, bb_list)\<close>\<close>
  env_only_positive :: "string \<Rightarrow> bool"
  env_binarize :: "string \<Rightarrow> bool"
  env_acc_compute :: "nat \<Rightarrow> real \<Rightarrow> ('t \<times> real list list) list \<Rightarrow> 'sd pydict"
    \<comment> \<open>\<^verbatim>\<open>MultiLabelMetrics(num_classes, threshold).compute()\<close> after these updates\<close>
  env_group_compute ::
    "string list option \<Rightarrow> ('t \<times> real list list \<times> 't) list \<Rightarrow> 'sd pydict"
    \<comment> \<open>\<^verbatim>\<open>GroupedAccuracyMetric(group_names).compute()\<close> after these updates\<close>
  env_bb_compute :: "('t \<times> 't) list \<Rightarrow> 'sd pyval"
    \<comment> \<open>\<^verbatim>\<open>BoundingBoxEnergyMultiple().compute()\<close>\<close>
  env_iou_compute :: "('t \<times> 't) list \<Rightarrow> 'sd pyval"
    \<comment> \<open>\<^verbatim>\<open>BoundingBoxIoUMultiple().compute()\<close>\<close>
  env_get_best ::
    "('sd pydict \<times> 'sd \<times> nat) list \<Rightarrow>
       'sd pyval option \<times> 'sd option \<times> nat option \<times> 'sd pydict option"
    \<comment> \<open>\<^verbatim>\<open>BestMetricTracker("Accuracy").get_best()\<close> after these updates\<close>
  env_update_val_metrics :: "'sd pydict option \<Rightarrow> error + 'sd pydict"
    \<comment> \<open>\<^verbatim>\<open>utils.update_val_metrics\<close>\<close>
  env_str_float :: "real \<Rightarrow> string"
    \<comment> \<open>\<^verbatim>\<open>str\<close> of a float\<close>

section \<open>Evaluation\<close>

text \<open>
  The metric objects and the running loss of \<^verbatim>\<open>eval_model\<close>. The grouped accuracy
  metric is the group names it was constructed with and the updates it has received.
\<close>

record 't eval_vars =
  ev_total_loss :: accum
  ev_acc_metric :: "('t \<times> real list list) list"
  ev_grouped_accuracy :: "('t \<times> real list list \<times> 't) list"
  ev_bb_metric :: "('t \<times> 't) list"
  ev_iou_metric :: "('t \<times> 't) list"
  ev_group_names :: "string list option"

text \<open>\<^verbatim>\<open>torch.where(row == 1)[0]\<close>: the indices of the entries equal to 1.\<close>

definition where_one :: "real list \<Rightarrow> nat list" where
  "where_one row = filter (\<lambda>j. row ! j = 1) [0..<length row]"

text \<open>The body of the loop over \<^verbatim>\<open>class_target\<close>.\<close>

definition eval_pred ::
  "('sd, 't, 'o) env \<Rightarrow> attributor \<Rightarrow> 'sd model \<Rightarrow> 't \<Rightarrow> 't \<Rightarrow> 't option list \<Rightarrow> nat \<Rightarrow>
   nat \<Rightarrow> 't eval_vars \<Rightarrow> error + 't eval_vars" where
  "eval_pred env attr m features logits test_bbs img_idx pred v =
     (let attributions = env_attribute env attr m features logits pred img_idx
      in if length test_bbs \<le> img_idx then Inl IndexError
         else case test_bbs ! img_idx of
                None \<Rightarrow> Inl AttributeError
              | Some bbs \<Rightarrow>
                  let bb_list = env_filter_bbs env bbs pred
                  in Inr (v\<lparr>ev_bb_metric := ev_bb_metric v @ [(attributions, bb_list)],
                            ev_iou_metric := ev_iou_metric v @ [(attributions, bb_list)]\<rparr>))"

text \<open>The body of the loop over \<^verbatim>\<open>img_idx\<close>.\<close>

definition eval_image ::
  "('sd, 't, 'o) env \<Rightarrow> attributor \<Rightarrow> 'sd model \<Rightarrow> 't \<Rightarrow> 't \<Rightarrow> 't batch \<Rightarrow> nat \<Rightarrow>
   't eval_vars \<Rightarrow> error + 't eval_vars" where
  "eval_image env attr m features logits data img_idx v =
     (if length (batch_y data) \<le> img_idx then Inl IndexError
      else let class_target = where_one (batch_y data ! img_idx)
           in fold_err (eval_pred env attr m features logits (batch_bbs data) img_idx)
                class_target v)"

text \<open>The body of the loop over the batches of the loader.\<close>

definition eval_batch ::
  "('sd, 't, 'o) env \<Rightarrow> activator \<Rightarrow> 'sd model \<Rightarrow> attributor option \<Rightarrow> loss_module \<Rightarrow>
   't batch \<Rightarrow> 't eval_vars \<Rightarrow> error + 't eval_vars" where
  "eval_batch env act m attr loss_fn data v =
     (let (logits, features) = env_forward env act m (batch_X data);
          loss = env_loss env loss_fn logits (batch_y data);
          v = v\<lparr>ev_total_loss := accum_add (ev_total_loss v) loss\<rparr>;
          v = v\<lparr>ev_acc_metric := ev_acc_metric v @ [(logits, batch_y data)]\<rparr>;
          v = v\<lparr>ev_grouped_accuracy :=
                  ev_grouped_accuracy v @ [(logits, batch_y data, batch_groups data)]\<rparr>
      in case attr of
           None \<Rightarrow> Inr v
         | Some atr \<Rightarrow>
             fold_err (eval_image env atr m features logits data) [0..<length (batch_X data)] v)"

text \<open>Reading a dictionary: a missing key raises.\<close>

definition getitem :: "'sd pydict \<Rightarrow> string \<Rightarrow> error + 'sd pyval" where
  "getitem d k = (case d k of None \<Rightarrow> Inl KeyError | Some v \<Rightarrow> Inr v)"

text \<open>\<^verbatim>\<open>group_acc_vals[group_names[i]]\<close>.\<close>

definition group_value ::
  "'sd pydict \<Rightarrow> string list option \<Rightarrow> nat \<Rightarrow> error + 'sd pyval" where
  "group_value group_acc_vals group_names i =
     (case group_names of
        None \<Rightarrow> Inl TypeError
      | Some names \<Rightarrow>
          if length names \<le> i then Inl IndexError else getitem group_acc_vals (names ! i))"

text \<open>One \<^verbatim>\<open>writer.add_scalar(tag, value, epoch)\<close> whose value may raise.\<close>

definition log_scalar ::
  "nat option \<Rightarrow> string \<times> (error + 'sd pyval) \<Rightarrow> 'sd summary_writer \<Rightarrow>
   error + 'sd summary_writer" where
  "log_scalar epoch tv w =
     (case snd tv of Inl err \<Rightarrow> Inl err | Inr v \<Rightarrow> Inr (add_scalar (fst tv) v epoch w))"

text \<open>What \<^verbatim>\<open>eval_model\<close> leaves behind: the returned dictionary, the network, the writer,
  and the metric objects.\<close>

record ('sd, 't) eval_out =
  eo_metric_vals :: "'sd pydict"
  eo_model :: "'sd model"
  eo_writer :: "'sd summary_writer option"
  eo_vars :: "'t eval_vars"

definition eval_scalars ::
  "'sd pydict \<Rightarrow> 'sd pydict \<Rightarrow> string list option \<Rightarrow> attributor option \<Rightarrow> real \<Rightarrow>
   (string \<times> (error + 'sd pyval)) list" where
  "eval_scalars metric_vals group_acc_vals group_names attr avg =
     [(''val_loss'', Inr (PFloat avg)),
      (''accuracy'', getitem metric_vals ''Accuracy''),
      (''precision'', getitem metric_vals ''Precision''),
      (''recall'', getitem metric_vals ''Recall''),
      (''fscore'', getitem metric_vals ''F-Score''),
      (''G1'', group_value group_acc_vals group_names 0),
      (''G2'', group_value group_acc_vals group_names 1),
      (''G3'', group_value group_acc_vals group_names 2),
      (''G4'', group_value group_acc_vals group_names 3)]
     @ (case attr of
          None \<Rightarrow> []
        | Some atr \<Rightarrow>
            [(''bbloc'', getitem metric_vals ''BB-Loc''),
             (''bbiou'', getitem metric_vals ''BB-IoU'')])"

definition eval_model ::
  "('sd, 't, 'o) env \<Rightarrow> activator \<Rightarrow> 'sd model \<Rightarrow> attributor option \<Rightarrow> 't batch list \<Rightarrow>
   real \<Rightarrow> nat \<Rightarrow> loss_module \<Rightarrow> 'sd summary_writer option \<Rightarrow> nat option \<Rightarrow>
   string list option \<Rightarrow> error + ('sd, 't) eval_out" where
  "eval_model env act model attr loader num_batches n_classes loss_fn writer epoch group_names =
     (let model = model\<lparr>training := False\<rparr>;
          v0 = \<lparr>ev_total_loss = Py_int 0, ev_acc_metric = [], ev_grouped_accuracy = [],
                ev_bb_metric = [], ev_iou_metric = [], ev_group_names = group_names\<rparr>
      in case fold_err (eval_batch env act model attr loss_fn) loader v0 of
           Inl err \<Rightarrow> Inl err
         | Inr v \<Rightarrow>
             (let metric_vals = env_acc_compute env n_classes 0 (ev_acc_metric v);
                  group_acc_vals =
                    env_group_compute env (ev_group_names v) (ev_grouped_accuracy v);
                  metric_vals =
                    (case attr of
                       None \<Rightarrow> metric_vals
                     | Some atr \<Rightarrow>
                         metric_vals(''BB-Loc'' \<mapsto> env_bb_compute env (ev_bb_metric v),
                                     ''BB-IoU'' \<mapsto> env_iou_compute env (ev_iou_metric v)))
              in case item (ev_total_loss v) of
                   Inl err \<Rightarrow> Inl err
                 | Inr total_loss \<Rightarrow>
                     (if num_batches = 0 then Inl ZeroDivisionError
                      else
                        let metric_vals =
                              metric_vals(''Average-Loss'' \<mapsto> PFloat (total_loss / num_batches));
                            model = model\<lparr>training := True\<rparr>;
                            out = \<lparr>eo_metric_vals = metric_vals, eo_model = model,
                                   eo_writer = None, eo_vars = v\<rparr>
                        in case writer of
                             None \<Rightarrow> Inr out
                           | Some w \<Rightarrow>
                               (case fold_err (log_scalar epoch)
                                       (eval_scalars metric_vals group_acc_vals group_names attr
                                          (total_loss / num_batches)) w of
                                  Inl err \<Rightarrow> Inl err
                                | Inr w' \<Rightarrow> Inr (out\<lparr>eo_writer := Some w'\<rparr>)))))"

section \<open>One training batch\<close>

text \<open>
  The body of the loop over \<^verbatim>\<open>img_idx\<close> in the training loop: images without annotation
  are skipped; the others add \<^verbatim>\<open>loss_loc(attributions[img_idx], bb_list)\<close>.
\<close>

definition train_bb_list :: "('sd, 't, 'o) env \<Rightarrow> args \<Rightarrow> 't \<Rightarrow> nat \<Rightarrow> 't" where
  "train_bb_list env a bbs cls =
     (let bb_list = env_filter_bbs env bbs cls
      in if box_dilation_percentage a > 0
         then env_enlarge_bb env bb_list (box_dilation_percentage a)
         else bb_list)"

definition train_image ::
  "('sd, 't, 'o) env \<Rightarrow> args \<Rightarrow> string option \<Rightarrow> 't list \<Rightarrow> nat list \<Rightarrow> 't option list \<Rightarrow>
   nat \<Rightarrow> accum \<Rightarrow> error + accum" where
  "train_image env a loss_loc attributions gt_classes train_bbs img_idx localization_loss =
     (if length train_bbs \<le> img_idx then Inl IndexError
      else case train_bbs ! img_idx of
             None \<Rightarrow> Inr localization_loss
           | Some bbs \<Rightarrow>
               if length gt_classes \<le> img_idx then Inl IndexError
               else
                 let bb_list = train_bb_list env a bbs (gt_classes ! img_idx)
                 in if length attributions \<le> img_idx then Inl IndexError
                    else (case loss_loc of
                            None \<Rightarrow> Inl TypeError
                          | Some name \<Rightarrow>
                              Inr (accum_add localization_loss
                                     (env_loss_loc env name (attributions ! img_idx) bb_list))))"

text \<open>The losses of one batch, up to \<^verbatim>\<open>batch_loss.backward()\<close>.\<close>

record batch_losses =
  bl_batch_loss :: real
  bl_loss :: real
  bl_localization_loss :: accum

definition train_batch_loss ::
  "('sd, 't, 'o) env \<Rightarrow> args \<Rightarrow> activator \<Rightarrow> loss_module \<Rightarrow> string option \<Rightarrow>
   attributor option \<Rightarrow> 'sd model \<Rightarrow> nat \<Rightarrow> nat \<Rightarrow> 't batch \<Rightarrow> error + batch_losses" where
  "train_batch_loss env a act loss_fn loss_loc attr m e batch_idx data =
     (let batch_loss = Py_int 0;
          localization_loss = Py_int 0;
          (logits, features) = env_forward env act m (batch_X data);
          loss = env_loss env loss_fn logits (batch_y data);
          batch_loss = accum_add batch_loss loss
      in if optimize_explanations a then
           let gt_classes = env_targets env e batch_idx (batch_y data)
           in case attr of
                None \<Rightarrow> Inl TypeError
              | Some atr \<Rightarrow>
                  let attributions = env_attribute_batch env atr m features logits gt_classes
                  in (case fold_err
                             (train_image env a loss_loc attributions gt_classes (batch_bbs data))
                             [0..<length (batch_X data)] localization_loss of
                        Inl err \<Rightarrow> Inl err
                      | Inr localization_loss \<Rightarrow>
                          let batch_loss =
                                accum_add batch_loss
                                  (localization_loss_lambda a * accum_value localization_loss)
                          in Inr \<lparr>bl_batch_loss = accum_value batch_loss, bl_loss = loss,
                                   bl_localization_loss = localization_loss\<rparr>)
         else Inr \<lparr>bl_batch_loss = accum_value batch_loss, bl_loss = loss,
                    bl_localization_loss = localization_loss\<rparr>)"

text \<open>The annotated images of a batch, and the localization term the claim speaks of.\<close>

definition annotated :: "'t batch \<Rightarrow> nat list" where
  "annotated data =
     filter (\<lambda>img_idx. batch_bbs data ! img_idx \<noteq> None) [0..<length (batch_X data)]"

definition localization_sum ::
  "('sd, 't, 'o) env \<Rightarrow> args \<Rightarrow> activator \<Rightarrow> string \<Rightarrow> attributor \<Rightarrow> 'sd model \<Rightarrow>
   nat \<Rightarrow> nat \<Rightarrow> 't batch \<Rightarrow> real" where
  "localization_sum env a act name atr m e batch_idx data =
     (let (logits, features) = env_forward env act m (batch_X data);
          gt_classes = env_targets env e batch_idx (batch_y data);
          attributions = env_attribute_batch env atr m features logits gt_classes
      in sum_list
           (map (\<lambda>img_idx.
                   env_loss_loc env name (attributions ! img_idx)
                     (train_bb_list env a (the (batch_bbs data ! img_idx)) (gt_classes ! img_idx)))
              (annotated data)))"

text \<open>The same term when the loss or the attributor may be absent: without a localization
  loss nothing can be summed.\<close>

definition localization_term ::
  "('sd, 't, 'o) env \<Rightarrow> args \<Rightarrow> activator \<Rightarrow> string option \<Rightarrow> attributor option \<Rightarrow>
   'sd model \<Rightarrow> nat \<Rightarrow> nat \<Rightarrow> 't batch \<Rightarrow> real" where
  "localization_term env a act loss_loc attr m e batch_idx data =
     (case loss_loc of
        None \<Rightarrow> 0
      | Some name \<Rightarrow>
          (case attr of
             None \<Rightarrow> 0
           | Some atr \<Rightarrow> localization_sum env a act name atr m e batch_idx data))"

definition classification_loss ::
  "('sd, 't, 'o) env \<Rightarrow> activator \<Rightarrow> loss_module \<Rightarrow> 'sd model \<Rightarrow> 't batch \<Rightarrow> real" where
  "classification_loss env act loss_fn m data =
     env_loss env loss_fn (fst (env_forward env act m (batch_X data))) (batch_y data)"

text \<open>A batch whose lists are as long as the batch has images.\<close>

definition batch_ok :: "('sd, 't, 'o) env \<Rightarrow> nat \<Rightarrow> nat \<Rightarrow> attributor \<Rightarrow> activator \<Rightarrow>
   'sd model \<Rightarrow> 't batch \<Rightarrow> bool" where
  "batch_ok env e batch_idx atr act m data =
     (let n = length (batch_X data);
          (logits, features) = env_forward env act m (batch_X data);
          gt_classes = env_targets env e batch_idx (batch_y data)
      in n \<le> length (batch_bbs data) \<and> n \<le> length gt_classes
         \<and> n \<le> length (env_attribute_batch env atr m features logits gt_classes))"

section \<open>Paths, names and the arguments as a dictionary\<close>

text \<open>\<^verbatim>\<open>os.path.join\<close> and \<^verbatim>\<open>os.path.basename\<close> on POSIX.\<close>

definition path_join2 :: "string \<Rightarrow> string \<Rightarrow> string" where
  "path_join2 path b =
     (if b \<noteq> [] \<and> hd b = CHR ''/'' then b
      else if path = [] \<or> last path = CHR ''/'' then path @ b
      else path @ ''/'' @ b)"

definition os_path_join :: "string \<Rightarrow> string list \<Rightarrow> string" where
  "os_path_join a p = foldl path_join2 a p"

definition basename :: "string \<Rightarrow> string" where
  "basename p = rev (takeWhile (\<lambda>c. c \<noteq> CHR ''/'') (rev p))"

text \<open>\<^verbatim>\<open>str\<close> of a non-negative integer and of an optional string.\<close>

fun str_nat :: "nat \<Rightarrow> string" where
  "str_nat n =
     (if n < 10 then [''0123456789'' ! n]
      else str_nat (n div 10) @ [''0123456789'' ! (n mod 10)])"

definition str_opt :: "string option \<Rightarrow> string" where
  "str_opt x = (case x of None \<Rightarrow> ''None'' | Some v \<Rightarrow> v)"

definition opt_pyval :: "string option \<Rightarrow> 'sd pyval" where
  "opt_pyval x = (case x of None \<Rightarrow> PNone | Some v \<Rightarrow> PStr v)"

text \<open>\<^verbatim>\<open>vars(args)\<close>.\<close>

definition vars_args :: "args \<Rightarrow> 'sd pydict" where
  "vars_args a =
     [''task'' \<mapsto> PStr (task a),
      ''model_backbone'' \<mapsto> PStr (model_backbone a),
      ''model_path'' \<mapsto> opt_pyval (model_path a),
      ''data_path'' \<mapsto> PStr (data_path a),
      ''total_epochs'' \<mapsto> PInt (total_epochs a),
      ''learning_rate'' \<mapsto> PFloat (learning_rate a),
      ''log_path'' \<mapsto> opt_pyval (log_path a),
      ''save_path'' \<mapsto> PStr (save_path a),
      ''seed'' \<mapsto> PInt (seed a),
      ''train_batch_size'' \<mapsto> PInt (train_batch_size a),
      ''dataset'' \<mapsto> PStr (dataset a),
      ''localization_loss_lambda'' \<mapsto> PFloat (localization_loss_lambda a),
      ''layer'' \<mapsto> PStr (layer a),
      ''localization_loss_fn'' \<mapsto> opt_pyval (localization_loss_fn a),
      ''attribution_method'' \<mapsto> opt_pyval (attribution_method a),
      ''optimize_explanations'' \<mapsto> PBool (optimize_explanations a),
      ''min_acc'' \<mapsto> PFloat (min_acc a),
      ''pareto'' \<mapsto> PBool (pareto a),
      ''annotated_fraction'' \<mapsto> PFloat (annotated_fraction a),
      ''evaluation_frequency'' \<mapsto> PInt (evaluation_frequency a),
      ''eval_batch_size'' \<mapsto> PInt (eval_batch_size a),
      ''box_dilation_percentage'' \<mapsto> PFloat (box_dilation_percentage a),
      ''use_loss_weights'' \<mapsto> PBool (use_loss_weights a)]"

text \<open>The run name and the directory of the checkpoints.\<close>

definition main_out_name :: "('sd, 't, 'o) env \<Rightarrow> args \<Rightarrow> string" where
  "main_out_name env a =
     (let orig_name =
            (case model_path a of
               None \<Rightarrow> ''None''
             | Some p \<Rightarrow> if p = [] then ''None'' else basename p);
          model_prefix = model_backbone a;
          s = (if optimize_explanations a then ''finetunedobjloc'' else ''standard'');
          s = s @ (if pareto a then ''pareto'' else []);
          s = s @ (if annotated_fraction a < 1 then ''limited'' else []);
          s = s @ (if box_dilation_percentage a > 0 then ''dilated'' else []);
          out_name =
            model_prefix @ ''_'' @ s @ ''_attr'' @ str_opt (attribution_method a)
            @ ''_locloss'' @ str_opt (localization_loss_fn a) @ ''_orig'' @ orig_name
            @ ''_resnet50'' @ ''_lr'' @ env_str_float env (learning_rate a)
            @ ''_sll'' @ env_str_float env (localization_loss_lambda a)
            @ ''_layer'' @ layer a;
          out_name =
            (if annotated_fraction a < 1
             then out_name @ ''limited'' @ env_str_float env (annotated_fraction a)
             else out_name);
          out_name =
            (if box_dilation_percentage a > 0
             then out_name @ ''_dilation'' @ env_str_float env (box_dilation_percentage a)
             else out_name)
      in out_name)"

definition main_save_path :: "('sd, 't, 'o) env \<Rightarrow> args \<Rightarrow> string" where
  "main_save_path env a =
     os_path_join (save_path a) [dataset a, task a, main_out_name env a]"

section \<open>The data sets\<close>

definition main_transformer :: "args \<Rightarrow> transform" where
  "main_transformer a =
     (if model_backbone a = ''bcos'' then AddInverse 0
      else Normalize [0.485, 0.456, 0.406] [0.229, 0.224, 0.225])"

definition main_root :: "args \<Rightarrow> string" where
  "main_root a =
     (if task a = ''birds''
      then os_path_join (data_path a) [dataset a, ''birds_processed/'']
      else os_path_join (data_path a) [dataset a, ''background_processed/''])"

text \<open>The three data sets, in the order \<^verbatim>\<open>main\<close> builds them: train, val, test.\<close>

definition main_train_data :: "args \<Rightarrow> WaterbirdsDetectParsed" where
  "main_train_data a =
     (let transformer = main_transformer a;
          train_transformer =
            Compose ([RandomResizedCrop 224 224, RandomHorizontalFlip] @ [transformer]);
          root = main_root a
      in \<lparr>ds_root = root, ds_image_set = ''train'', ds_transform = train_transformer,
          ds_annotated_fraction = Some (annotated_fraction a)\<rparr>)"

definition main_val_data :: "args \<Rightarrow> WaterbirdsDetectParsed" where
  "main_val_data a =
     \<lparr>ds_root = main_root a, ds_image_set = ''val'', ds_transform = main_transformer a,
      ds_annotated_fraction = None\<rparr>"

definition main_test_data :: "args \<Rightarrow> WaterbirdsDetectParsed" where
  "main_test_data a =
     \<lparr>ds_root = main_root a, ds_image_set = ''test'', ds_transform = main_transformer a,
      ds_annotated_fraction = None\<rparr>"

section \<open>The training loop of \<^verbatim>\<open>main\<close>\<close>

text \<open>What \<^verbatim>\<open>main\<close> has computed when the loop begins.\<close>

record main_ctx =
  cx_activator :: activator
  cx_loss_fn :: loss_module
  cx_loss_loc :: "string option"
  cx_attributor :: "attributor option"
  cx_eval_attributor :: "attributor option"
  cx_save_path :: string
  cx_train_data :: WaterbirdsDetectParsed
  cx_val_data :: WaterbirdsDetectParsed
  cx_test_data :: WaterbirdsDetectParsed
  cx_num_train_batches :: real
  cx_num_val_batches :: real
  cx_num_test_batches :: real

text \<open>
  The variables of \<^verbatim>\<open>main\<close> that change: the network, the optimizer, the accuracy tracker
  and the Pareto tracker (the lists of their \<^verbatim>\<open>update\<close> calls), the writer,
  \<^verbatim>\<open>metric_vals\<close> and \<^verbatim>\<open>e\<close> (\<open>None\<close> while unbound), the files written by \<^verbatim>\<open>torch.save\<close>,
  the calls of \<^verbatim>\<open>save_pareto_front\<close>, and the calls of \<^verbatim>\<open>eval_model\<close> that returned,
  each with the image set of the data it ran on, the epoch it was given and the group
  names its grouped metric was built over.
\<close>

record ('sd, 'o) main_state =
  ms_model :: "'sd model"
  ms_optimizer :: 'o
  ms_acc_tracker :: "('sd pydict \<times> 'sd \<times> nat) list"
  ms_pareto_front_tracker :: "('sd \<times> 'sd pydict \<times> nat) list"
  ms_writer :: "'sd summary_writer option"
  ms_metric_vals :: "'sd pydict option"
  ms_e :: "nat option"
  ms_saved :: "(string \<times> 'sd pydict) list"
  ms_pareto_saved :: "(string \<times> ('sd \<times> 'sd pydict \<times> nat) list) list"
  ms_evals :: "(string \<times> nat option \<times> string list option) list"

text \<open>How a piece of \<^verbatim>\<open>main\<close> ends: it goes on, it executes \<^verbatim>\<open>return\<close>, or it raises.\<close>

datatype signal = Next | Return | Raise error

text \<open>The running totals of one epoch.\<close>

record ('sd, 'o) epoch_vars =
  ep_model :: "'sd model"
  ep_optimizer :: 'o
  ep_total_loss :: accum
  ep_total_class_loss :: accum
  ep_total_localization_loss :: accum

text \<open>\<^verbatim>\<open>total += x\<close> where \<open>x\<close> is a tensor, or still the integer it started as.\<close>

fun accum_plus :: "accum \<Rightarrow> accum \<Rightarrow> accum" where
  "accum_plus t (Tensor r) = accum_add t r"
| "accum_plus (Py_int m) (Py_int n) = Py_int (m + n)"
| "accum_plus (Tensor r) (Py_int n) = Tensor (r + of_int n)"

text \<open>The body of the loop over the batches of the training loader.\<close>

definition train_batch ::
  "('sd, 't, 'o) env \<Rightarrow> args \<Rightarrow> main_ctx \<Rightarrow> nat \<Rightarrow> nat \<times> 't batch \<Rightarrow> ('sd, 'o) epoch_vars \<Rightarrow>
   error + ('sd, 'o) epoch_vars" where
  "train_batch env a cx e ib v =
     (let batch_idx = fst ib; data = snd ib
      in case train_batch_loss env a (cx_activator cx) (cx_loss_fn cx) (cx_loss_loc cx)
                (cx_attributor cx) (ep_model v) e batch_idx data of
           Inl err \<Rightarrow> Inl err
         | Inr l \<Rightarrow>
             (let v = v\<lparr>ep_total_class_loss := accum_add (ep_total_class_loss v) (bl_loss l)\<rparr>;
                  v = (if optimize_explanations a
                       then v\<lparr>ep_total_localization_loss :=
                                 accum_plus (ep_total_localization_loss v)
                                   (bl_localization_loss l)\<rparr>
                       else v);
                  (opt, sd) = env_step env (ep_optimizer v) (state_dict (ep_model v)) data
                                (bl_batch_loss l);
                  v = v\<lparr>ep_total_loss := accum_add (ep_total_loss v) (bl_batch_loss l)\<rparr>
              in Inr (v\<lparr>ep_model := (ep_model v)\<lparr>state_dict := sd\<rparr>, ep_optimizer := opt\<rparr>)))"

definition train_epoch ::
  "('sd, 't, 'o) env \<Rightarrow> args \<Rightarrow> main_ctx \<Rightarrow> nat \<Rightarrow> 'sd model \<Rightarrow> 'o \<Rightarrow>
   error + ('sd, 'o) epoch_vars" where
  "train_epoch env a cx e m opt =
     (let train_loader = env_loader env (cx_train_data cx) (train_batch_size a) e
      in fold_err (train_batch env a cx e) (zip [0..<length train_loader] train_loader)
           \<lparr>ep_model = m, ep_optimizer = opt, ep_total_loss = Py_int 0,
            ep_total_class_loss = Py_int 0, ep_total_localization_loss = Py_int 0\<rparr>)"

text \<open>\<^verbatim>\<open>best_acc < args.min_acc\<close>: numbers compare, anything else raises.\<close>

fun py_less :: "'sd pyval \<Rightarrow> real \<Rightarrow> error + bool" where
  "py_less (PFloat r) x = Inr (r < x)"
| "py_less (PInt n) x = Inr (of_int n < x)"
| "py_less (PBool b) x = Inr ((if b then 1 else 0) < x)"
| "py_less v x = Inl TypeError"

definition checkpoint_stopped :: "string \<Rightarrow> nat \<Rightarrow> string" where
  "checkpoint_stopped dir e =
     os_path_join dir [''model_checkpoint_stopped_'' @ str_nat (e + 1) @ ''.pt'']"

definition checkpoint_final :: "string \<Rightarrow> nat \<Rightarrow> string" where
  "checkpoint_final dir e =
     os_path_join dir [''model_checkpoint_final_'' @ str_nat (e + 1) @ ''.pt'']"

definition checkpoint_acc_best :: "string \<Rightarrow> string" where
  "checkpoint_acc_best dir = os_path_join dir [''model_checkpoint_acc_best.pt'']"

text \<open>The dictionary saved when training stops early.\<close>

definition stopped_dict :: "args \<Rightarrow> nat \<Rightarrow> 'sd pydict \<Rightarrow> 'sd pydict" where
  "stopped_dict a e metric_vals =
     (let metric_vals =
            metric_vals ++ ([''model'' \<mapsto> PNone, ''epochs'' \<mapsto> PInt (int e + 1)] ++ vars_args a);
          metric_vals = metric_vals ++ [''BelowThresh'' \<mapsto> PBool True]
      in metric_vals)"

text \<open>
  The evaluation branch of an epoch, after \<^verbatim>\<open>eval_model\<close> has returned \<open>metric_vals\<close>:
  the Pareto update, the threshold test on the best accuracy the tracker holds so far, the
  early stop, or the update of the tracker.
\<close>

definition after_eval ::
  "('sd, 't, 'o) env \<Rightarrow> args \<Rightarrow> main_ctx \<Rightarrow> nat \<Rightarrow> 'sd pydict \<Rightarrow> ('sd, 'o) main_state \<Rightarrow>
   ('sd, 'o) main_state \<times> signal" where
  "after_eval env a cx e metric_vals st =
     (let st = (if pareto a
                then st\<lparr>ms_pareto_front_tracker :=
                          ms_pareto_front_tracker st
                          @ [(state_dict (ms_model st), metric_vals, e)]\<rparr>
                else st);
          best_acc = fst (env_get_best env (ms_acc_tracker st));
          stop = (case best_acc of None \<Rightarrow> Inr False | Some b \<Rightarrow> py_less b (min_acc a))
      in case stop of
           Inl err \<Rightarrow> (st, Raise err)
         | Inr True \<Rightarrow>
             (case getitem metric_vals ''Accuracy'' of
                Inl err \<Rightarrow> (st, Raise err)
              | Inr acc \<Rightarrow>
                  (let metric_vals = stopped_dict a e metric_vals;
                       st = st\<lparr>ms_metric_vals := Some metric_vals\<rparr>;
                       st = st\<lparr>ms_saved :=
                                 ms_saved st
                                 @ [(checkpoint_stopped (cx_save_path cx) e, metric_vals)]\<rparr>;
                       st = (if pareto a
                             then st\<lparr>ms_pareto_saved :=
                                       ms_pareto_saved st
                                       @ [(cx_save_path cx, ms_pareto_front_tracker st)]\<rparr>
                             else st)
                   in (st, Return)))
         | Inr False \<Rightarrow>
             (st\<lparr>ms_acc_tracker :=
                   ms_acc_tracker st @ [(metric_vals, state_dict (ms_model st), e)]\<rparr>,
              Next))"

text \<open>The scalars of the training losses, written when there is a writer.\<close>

definition log_train ::
  "('sd, 'o) epoch_vars \<Rightarrow> nat \<Rightarrow> 'sd summary_writer option \<Rightarrow> 'sd summary_writer option" where
  "log_train v e writer =
     (case writer of
        None \<Rightarrow> None
      | Some w \<Rightarrow>
          Some (add_scalar ''localization_loss'' (accum_pyval (ep_total_localization_loss v))
                  (Some (e + 1))
                 (add_scalar ''class_loss'' (accum_pyval (ep_total_class_loss v)) (Some (e + 1))
                   (add_scalar ''train_loss'' (accum_pyval (ep_total_loss v)) (Some (e + 1)) w))))"

text \<open>
  \<^verbatim>\<open>total_loss / num_train_batches\<close> in the message printed after each epoch raises when
  the total is still the integer 0 and the divisor is zero.
\<close>

definition average_raises :: "accum \<Rightarrow> real \<Rightarrow> bool" where
  "average_raises t n = (case t of Py_int k \<Rightarrow> n = 0 | Tensor r \<Rightarrow> False)"

text \<open>The evaluation on the validation set at the end of an epoch.\<close>

definition eval_val ::
  "('sd, 't, 'o) env \<Rightarrow> args \<Rightarrow> main_ctx \<Rightarrow> 'sd model \<Rightarrow> 'sd summary_writer option \<Rightarrow> nat \<Rightarrow>
   error + ('sd, 't) eval_out" where
  "eval_val env a cx m writer e =
     eval_model env (cx_activator cx) m (cx_eval_attributor cx)
       (env_loader env (cx_val_data cx) (eval_batch_size a) 0)
       (cx_num_val_batches cx) num_classes (cx_loss_fn cx) writer (Some e) (Some GROUP_NAMES)"

text \<open>The body of the loop over the epochs.\<close>

definition main_epoch ::
  "('sd, 't, 'o) env \<Rightarrow> args \<Rightarrow> main_ctx \<Rightarrow> nat \<Rightarrow> ('sd, 'o) main_state \<Rightarrow>
   ('sd, 'o) main_state \<times> signal" where
  "main_epoch env a cx e st =
     (let st = st\<lparr>ms_e := Some e\<rparr>
      in case train_epoch env a cx e (ms_model st) (ms_optimizer st) of
           Inl err \<Rightarrow> (st, Raise err)
         | Inr v \<Rightarrow>
             (let st = st\<lparr>ms_model := ep_model v, ms_optimizer := ep_optimizer v\<rparr>
              in if average_raises (ep_total_loss v) (cx_num_train_batches cx)
                 then (st, Raise ZeroDivisionError)
                 else
                   let st = st\<lparr>ms_writer := log_train v e (ms_writer st)\<rparr>
                   in if evaluation_frequency a = 0 then (st, Raise ZeroDivisionError)
                      else if (int e + 1) mod evaluation_frequency a = 0 then
                        (case eval_val env a cx (ms_model st) (ms_writer st) e of
                           Inl err \<Rightarrow> (st, Raise err)
                         | Inr out \<Rightarrow>
                             after_eval env a cx e (eo_metric_vals out)
                               (st\<lparr>ms_model := eo_model out,
                                   ms_writer := eo_writer out,
                                   ms_metric_vals := Some (eo_metric_vals out),
                                   ms_evals :=
                                     ms_evals st
                                     @ [(ds_image_set (cx_val_data cx), Some e,
                                         ev_group_names (eo_vars out))]\<rparr>))
                      else (st, Next)))"

text \<open>The loop over the epochs: it ends with the list, with \<^verbatim>\<open>return\<close>, or with an exception.\<close>

fun run_epochs ::
  "(nat \<Rightarrow> 's \<Rightarrow> 's \<times> signal) \<Rightarrow> nat list \<Rightarrow> 's \<Rightarrow> 's \<times> signal" where
  "run_epochs body [] st = (st, Next)"
| "run_epochs body (e # es) st =
     (case body e st of
        (st', Next) \<Rightarrow> run_epochs body es st'
      | (st', sig) \<Rightarrow> (st', sig))"

section \<open>\<^verbatim>\<open>main\<close>\<close>

text \<open>
  From the built network to the first epoch: names, writer, data sets, batch counts,
  losses, optimizer, activator and attributors. The writer starts with no scalar.
\<close>

definition truthy :: "string option \<Rightarrow> string option" where
  "truthy x = (case x of None \<Rightarrow> None | Some v \<Rightarrow> if v = [] then None else Some v)"

definition main_attributor ::
  "('sd, 't, 'o) env \<Rightarrow> args \<Rightarrow> nat option \<Rightarrow> string option \<Rightarrow> bool \<Rightarrow>
   error + attributor option" where
  "main_attributor env a layer_idx loss_loc batch_mode =
     (case truthy (attribution_method a) of
        None \<Rightarrow> Inr None
      | Some method \<Rightarrow>
          (let interpolate = (layer_idx \<noteq> None)
           in case loss_loc of
                None \<Rightarrow> Inl AttributeError
              | Some name \<Rightarrow>
                  Inr (Some \<lparr>attr_method = method,
                             attr_only_positive = env_only_positive env name,
                             attr_binarize = env_binarize env name,
                             attr_interpolate = interpolate,
                             attr_batch_mode = batch_mode\<rparr>)))"

definition main_setup ::
  "('sd, 't, 'o) env \<Rightarrow> args \<Rightarrow> net \<Rightarrow> nat option \<Rightarrow>
   error + main_ctx \<times> ('sd, 'o) main_state" where
  "main_setup env a network layer_idx =
     (let is_bcos = (model_backbone a = ''bcos'');
          model = \<lparr>state_dict = env_initial_state env network, training = True\<rparr>;
          save_path = main_save_path env a;
          writer = (case log_path a of None \<Rightarrow> None | Some dir \<Rightarrow> Some []);
          train_data = main_train_data a;
          val_data = main_val_data a;
          test_data = main_test_data a
      in if train_batch_size a = 0 \<or> eval_batch_size a = 0 then Inl ZeroDivisionError
         else
           let num_train_batches = real (env_len env train_data) / of_int (train_batch_size a);
               num_val_batches = real (env_len env val_data) / of_int (eval_batch_size a);
               num_test_batches = real (env_len env test_data) / of_int (eval_batch_size a);
               loss_fn = main_loss_fn a;
               loss_loc = truthy (localization_loss_fn a);
               optimizer = env_optimizer env (state_dict model) (learning_rate a);
               model_activator = \<lparr>act_layer = layer_idx, act_is_bcos = is_bcos\<rparr>
           in case main_attributor env a layer_idx loss_loc True of
                Inl err \<Rightarrow> Inl err
              | Inr attributor \<Rightarrow>
                  (case main_attributor env a layer_idx loss_loc False of
                     Inl err \<Rightarrow> Inl err
                   | Inr eval_attributor \<Rightarrow>
                       Inr (\<lparr>cx_activator = model_activator, cx_loss_fn = loss_fn,
                             cx_loss_loc = loss_loc, cx_attributor = attributor,
                             cx_eval_attributor = eval_attributor, cx_save_path = save_path,
                             cx_train_data = train_data, cx_val_data = val_data,
                             cx_test_data = test_data,
                             cx_num_train_batches = num_train_batches,
                             cx_num_val_batches = num_val_batches,
                             cx_num_test_batches = num_test_batches\<rparr>,
                            \<lparr>ms_model = model, ms_optimizer = optimizer, ms_acc_tracker = [],
                             ms_pareto_front_tracker = [], ms_writer = writer,
                             ms_metric_vals = None, ms_e = None, ms_saved = [],
                             ms_pareto_saved = [], ms_evals = []\<rparr>)))"

text \<open>The evaluation on the test set that both checkpoints of the end use.\<close>

definition eval_test ::
  "('sd, 't, 'o) env \<Rightarrow> args \<Rightarrow> main_ctx \<Rightarrow> 'sd model \<Rightarrow> error + ('sd, 't) eval_out" where
  "eval_test env a cx m =
     eval_model env (cx_activator cx) m (cx_eval_attributor cx)
       (env_loader env (cx_test_data cx) (eval_batch_size a) 0)
       (cx_num_test_batches cx) num_classes (cx_loss_fn cx) None None (Some GROUP_NAMES)"

definition final_dict :: "args \<Rightarrow> 'sd \<Rightarrow> nat \<Rightarrow> 'sd pydict" where
  "final_dict a sd epochs =
     [''model'' \<mapsto> PStateDict sd, ''epochs'' \<mapsto> PInt (int epochs)] ++ vars_args a"

text \<open>
  The end of \<^verbatim>\<open>main\<close>, second half: the best model of the tracker is loaded, evaluated on
  the test set, and both checkpoints are written.
\<close>

definition main_finish_best ::
  "('sd, 't, 'o) env \<Rightarrow> args \<Rightarrow> main_ctx \<Rightarrow> nat \<Rightarrow> 'sd pydict \<Rightarrow> ('sd, 'o) main_state \<Rightarrow>
   ('sd, 'o) main_state \<times> signal" where
  "main_finish_best env a cx e final_metrics st =
     (let (acc_best_score, acc_best_model_dict, acc_best_epoch, acc_best_metric_vals) =
            env_get_best env (ms_acc_tracker st)
      in case env_update_val_metrics env acc_best_metric_vals of
           Inl err \<Rightarrow> (st, Raise err)
         | Inr acc_best_metric_vals \<Rightarrow>
             (case acc_best_model_dict of
                None \<Rightarrow> (st, Raise TypeError)
              | Some best_sd \<Rightarrow>
                  (let st = st\<lparr>ms_model := (ms_model st)\<lparr>state_dict := best_sd\<rparr>\<rparr>
                   in case eval_test env a cx (ms_model st) of
                        Inl err \<Rightarrow> (st, Raise err)
                      | Inr out \<Rightarrow>
                          (let st = st\<lparr>ms_model := eo_model out,
                                       ms_evals :=
                                         ms_evals st
                                         @ [(ds_image_set (cx_test_data cx), None,
                                             ev_group_names (eo_vars out))]\<rparr>;
                               acc_best_metrics = eo_metric_vals out ++ acc_best_metric_vals
                           in case acc_best_epoch of
                                None \<Rightarrow> (st, Raise TypeError)
                              | Some best_e \<Rightarrow>
                                  (let acc_best_metrics =
                                         acc_best_metrics ++ final_dict a best_sd (best_e + 1)
                                   in (st\<lparr>ms_saved :=
                                            ms_saved st
                                            @ [(checkpoint_final (cx_save_path cx) e, final_metrics),
                                               (checkpoint_acc_best (cx_save_path cx),
                                                acc_best_metrics)]\<rparr>,
                                       Next))))))"

text \<open>
  The end of \<^verbatim>\<open>main\<close>, first half: the Pareto front is saved, the last validation metrics
  are read from \<^verbatim>\<open>metric_vals\<close> (unbound when no epoch evaluated), and the final model is
  evaluated on the test set.
\<close>

definition main_finish ::
  "('sd, 't, 'o) env \<Rightarrow> args \<Rightarrow> main_ctx \<Rightarrow> ('sd, 'o) main_state \<Rightarrow>
   ('sd, 'o) main_state \<times> signal" where
  "main_finish env a cx st =
     (let st = (if pareto a
                then st\<lparr>ms_pareto_saved :=
                          ms_pareto_saved st @ [(cx_save_path cx, ms_pareto_front_tracker st)]\<rparr>
                else st)
      in case ms_metric_vals st of
           None \<Rightarrow> (st, Raise UnboundLocalError)
         | Some metric_vals \<Rightarrow>
             (case env_update_val_metrics env (Some metric_vals) of
                Inl err \<Rightarrow> (st, Raise err)
              | Inr final_metric_vals \<Rightarrow>
                  (case eval_test env a cx (ms_model st) of
                     Inl err \<Rightarrow> (st, Raise err)
                   | Inr out \<Rightarrow>
                       (let st = st\<lparr>ms_model := eo_model out,
                                    ms_evals :=
                                      ms_evals st
                                      @ [(ds_image_set (cx_test_data cx), None,
                                          ev_group_names (eo_vars out))]\<rparr>;
                               final_state_dict = state_dict (ms_model st);
                               final_metrics = eo_metric_vals out ++ final_metric_vals
                           in case ms_e st of
                                None \<Rightarrow> (st, Raise UnboundLocalError)
                              | Some e \<Rightarrow>
                                  main_finish_best env a cx e
                                    (final_metrics ++ final_dict a final_state_dict (e + 1)) st))))"

text \<open>
  A run of \<^verbatim>\<open>main\<close>: how it ended (\<open>Next\<close>: it ran to its last line) and its variables
  at the end (\<open>None\<close> when it raised before the loop).
\<close>

record ('sd, 'o) run =
  run_signal :: signal
  run_state :: "('sd, 'o) main_state option"

definition main :: "('sd, 't, 'o) env \<Rightarrow> args \<Rightarrow> ('sd, 'o) run" where
  "main env a =
     (case build_model a of
        Inl err \<Rightarrow> \<lparr>run_signal = Raise err, run_state = None\<rparr>
      | Inr (network, layer_idx) \<Rightarrow>
          (case main_setup env a network layer_idx of
             Inl err \<Rightarrow> \<lparr>run_signal = Raise err, run_state = None\<rparr>
           | Inr (cx, st0) \<Rightarrow>
               (case run_epochs (main_epoch env a cx) [0..<nat (total_epochs a)] st0 of
                  (st, Next) \<Rightarrow>
                    (let (st', sig) = main_finish env a cx st
                     in \<lparr>run_signal = sig, run_state = Some st'\<rparr>)
                | (st, sig) \<Rightarrow> \<lparr>run_signal = sig, run_state = Some st\<rparr>)))"

section \<open>A tracker and a small environment to run the script on\<close>

text \<open>
  Modelled from the spec: \<^verbatim>\<open>utils.BestMetricTracker\<close> is not under src/. The
  tracker has no best value before its first update (\<^verbatim>\<open>get_best\<close> returns \<^verbatim>\<open>None\<close> four
  times), and afterwards holds the update with the greatest value of its metric, the
  earliest one among equals.
\<close>

fun pyval_real :: "'sd pyval \<Rightarrow> real" where
  "pyval_real (PFloat r) = r"
| "pyval_real (PInt n) = of_int n"
| "pyval_real v = 0"

definition tracker_update ::
  "string \<Rightarrow> ('sd pyval \<times> 'sd \<times> nat \<times> 'sd pydict) option \<Rightarrow> 'sd pydict \<times> 'sd \<times> nat \<Rightarrow>
   ('sd pyval \<times> 'sd \<times> nat \<times> 'sd pydict) option" where
  "tracker_update name best u =
     (case fst u name of
        None \<Rightarrow> best
      | Some v \<Rightarrow>
          (case best of
             None \<Rightarrow> Some (v, fst (snd u), snd (snd u), fst u)
           | Some b \<Rightarrow>
               if pyval_real (fst b) < pyval_real v
               then Some (v, fst (snd u), snd (snd u), fst u)
               else best))"

definition tracker_get_best ::
  "string \<Rightarrow> ('sd pydict \<times> 'sd \<times> nat) list \<Rightarrow>
   'sd pyval option \<times> 'sd option \<times> nat option \<times> 'sd pydict option" where
  "tracker_get_best name updates =
     (case foldl (tracker_update name) None updates of
        None \<Rightarrow> (None, None, None, None)
      | Some b \<Rightarrow>
          (Some (fst b), Some (fst (snd b)), Some (fst (snd (snd b))), Some (snd (snd (snd b)))))"

text \<open>
  A small environment: tensors and state dicts are numbers, every loader yields one batch
  of two images (in the training set only the first is annotated), each optimizer step adds one to the state
  dict, and the accuracy is one half.
\<close>

definition example_batch :: "nat batch" where
  "example_batch =
     \<lparr>batch_X = [0, 1], batch_y = [[1, 0], [0, 1]], batch_bbs = [Some 7, None],
      batch_groups = 0\<rparr>"

definition example_eval_batch :: "nat batch" where
  "example_eval_batch =
     \<lparr>batch_X = [0, 1], batch_y = [[1, 0], [0, 1]], batch_bbs = [Some 7, Some 8],
      batch_groups = 0\<rparr>"

definition example_metrics :: "nat pydict" where
  "example_metrics =
     [''Accuracy'' \<mapsto> PFloat (1 / 2), ''Precision'' \<mapsto> PFloat (1 / 2),
      ''Recall'' \<mapsto> PFloat (1 / 2), ''F-Score'' \<mapsto> PFloat (1 / 2)]"

definition example_env :: "(nat, nat, unit) env" where
  "example_env =
     \<lparr>env_len = (\<lambda>d. 2),
      env_loader =
        (\<lambda>d size n. if ds_image_set d = ''train'' then [example_batch] else [example_eval_batch]),
      env_initial_state = (\<lambda>n. 0),
      env_forward = (\<lambda>act m X. (length X, 5)),
      env_loss = (\<lambda>l logits y. 3),
      env_optimizer = (\<lambda>sd lr. ()),
      env_step = (\<lambda>opt sd data l. ((), Suc sd)),
      env_targets = (\<lambda>e i y. map (\<lambda>row. 0) y),
      env_attribute_batch = (\<lambda>atr m features logits classes. map (\<lambda>c. 10) classes),
      env_attribute = (\<lambda>atr m features logits pred img_idx. pred + img_idx),
      env_filter_bbs = (\<lambda>bbs cls. bbs + cls),
      env_enlarge_bb = (\<lambda>bb_list p. bb_list),
      env_loss_loc = (\<lambda>name attributions bb_list. real (attributions + bb_list)),
      env_only_positive = (\<lambda>name. False),
      env_binarize = (\<lambda>name. False),
      env_acc_compute = (\<lambda>n threshold updates. example_metrics),
      env_group_compute = (\<lambda>names updates. map_of (map (\<lambda>g. (g, PFloat 1)) GROUP_NAMES)),
      env_bb_compute = (\<lambda>updates. PFloat (1 / 4)),
      env_iou_compute = (\<lambda>updates. PFloat (1 / 8)),
      env_get_best = tracker_get_best ''Accuracy'',
      env_update_val_metrics = (\<lambda>d. case d of None \<Rightarrow> Inl TypeError | Some m \<Rightarrow> Inr m),
      env_str_float = (\<lambda>r. ''x'')\<rparr>"

definition example_args :: args where
  "example_args =
     \<lparr>task = ''birds'', model_backbone = ''bcos'', model_path = None,
      data_path = ''datasets/'', total_epochs = 2, learning_rate = 1 / 100000,
      log_path = None, save_path = ''checkpoints/'', seed = 0, train_batch_size = 16,
      dataset = ''Waterbirds-100'', localization_loss_lambda = 1, layer = ''Input'',
      localization_loss_fn = Some ''Energy'', attribution_method = Some ''BCos'',
      optimize_explanations = True, min_acc = - 1, pareto = False, annotated_fraction = 1,
      evaluation_frequency = 1, eval_batch_size = 4, box_dilation_percentage = 0,
      use_loss_weights = False\<rparr>"

definition example_activator :: activator where
  "example_activator = \<lparr>act_layer = None, act_is_bcos = True\<rparr>"

definition example_attributor :: attributor where
  "example_attributor =
     \<lparr>attr_method = ''BCos'', attr_only_positive = False, attr_binarize = False,
      attr_interpolate = False, attr_batch_mode = True\<rparr>"

definition example_model :: "nat model" where
  "example_model = \<lparr>state_dict = 0, training = True\<rparr>"

section \<open>Notions the theorems are stated with\<close>

text \<open>The part of the variables of \<^verbatim>\<open>eval_model\<close> that the loops over images and
  classes leave alone: the running loss, the accuracy metric and the grouped metric with
  its group names.\<close>

definition eval_core ::
  "'t eval_vars \<Rightarrow>
   accum \<times> ('t \<times> real list list) list \<times> ('t \<times> real list list \<times> 't) list
     \<times> string list option" where
  "eval_core v = (ev_total_loss v, ev_acc_metric v, ev_grouped_accuracy v, ev_group_names v)"

text \<open>The logits and the features of a batch.\<close>

definition batch_logits ::
  "('sd, 't, 'o) env \<Rightarrow> activator \<Rightarrow> 'sd model \<Rightarrow> 't batch \<Rightarrow> 't" where
  "batch_logits env act m d = fst (env_forward env act m (batch_X d))"

definition batch_features ::
  "('sd, 't, 'o) env \<Rightarrow> activator \<Rightarrow> 'sd model \<Rightarrow> 't batch \<Rightarrow> 't" where
  "batch_features env act m d = snd (env_forward env act m (batch_X d))"

text \<open>The epochs of a list at which \<^verbatim>\<open>main\<close> evaluates: those with \<^verbatim>\<open>(e+1) %
  evaluation_frequency == 0\<close>; and the log their evaluations leave.\<close>

definition eval_epochs :: "args \<Rightarrow> nat list \<Rightarrow> nat list" where
  "eval_epochs a es = filter (\<lambda>e. (int e + 1) mod evaluation_frequency a = 0) es"

definition val_log ::
  "args \<Rightarrow> nat list \<Rightarrow> (string \<times> nat option \<times> string list option) list" where
  "val_log a es = map (\<lambda>e. (''val'', Some e, Some GROUP_NAMES)) (eval_epochs a es)"

text \<open>What holds between two epochs, after the epochs \<open>done\<close> have run without a stop.\<close>

definition main_inv :: "args \<Rightarrow> nat list \<Rightarrow> ('sd, 'o) main_state \<Rightarrow> bool" where
  "main_inv a done st =
     (ms_saved st = [] \<and> ms_pareto_saved st = []
      \<and> ms_evals st = val_log a done
      \<and> map (\<lambda>u. snd (snd u)) (ms_acc_tracker st) = eval_epochs a done
      \<and> (ms_metric_vals st = None) = (eval_epochs a done = [])
      \<and> ms_e st = (if done = [] then None else Some (last done)))"

text \<open>
  The updates the two bounding-box metrics receive when there is an attributor: one for
  each image of each batch and each class the image is labelled with, in loop order.
\<close>

definition image_attributions ::
  "('sd, 't, 'o) env \<Rightarrow> activator \<Rightarrow> attributor \<Rightarrow> 'sd model \<Rightarrow> 't batch \<Rightarrow> nat \<Rightarrow>
   ('t \<times> 't) list" where
  "image_attributions env act atr m data img_idx =
     map (\<lambda>pred.
            (env_attribute env atr m (batch_features env act m data) (batch_logits env act m data)
               pred img_idx,
             env_filter_bbs env (the (batch_bbs data ! img_idx)) pred))
       (where_one (batch_y data ! img_idx))"

definition batch_attributions ::
  "('sd, 't, 'o) env \<Rightarrow> activator \<Rightarrow> attributor \<Rightarrow> 'sd model \<Rightarrow> 't batch \<Rightarrow> ('t \<times> 't) list" where
  "batch_attributions env act atr m data =
     concat (map (image_attributions env act atr m data) [0..<length (batch_X data)])"

definition eval_attributions ::
  "('sd, 't, 'o) env \<Rightarrow> activator \<Rightarrow> attributor \<Rightarrow> 'sd model \<Rightarrow> 't batch list \<Rightarrow>
   ('t \<times> 't) list" where
  "eval_attributions env act atr m loader = concat (map (batch_attributions env act atr m) loader)"

lemma get_loss_upweights_value: "get_loss_upweights = [312529 / 1048576, 1]"
  by code_simp

lemma get_loss_upweights_entries:
  "get_loss_upweights =
     [float32 (float32 (1 / 3694) / max (float32 (1 / 3694)) (float32 (1 / 1101))),
      float32 (float32 (1 / 1101) / max (float32 (1 / 3694)) (float32 (1 / 1101)))]"
  by code_simp

text \<open>
  Claim C9, as the code has it. \<^verbatim>\<open>get_loss_upweights\<close> returns a tensor of one dimension
  and length 2. Its entries are the float quotients of \<open>1/3694\<close> and \<open>1/1101\<close>, each
  rounded to a float, by the larger of the two, rounded again: the first entry is the
  float \<open>312529/1048576 = 0.2980508804321289\<close>, which is within \<open>2^-25\<close> of \<open>1101/3694\<close>
  and not equal to it, and the second entry is exactly 1. The largest entry is 1. The loss
  built by \<^verbatim>\<open>main\<close> carries this tensor as its weight exactly when \<^verbatim>\<open>--use_loss_weights\<close>
  is truthy, and no weight otherwise.
\<close>

theorem get_loss_upweights_spec:
  "length get_loss_upweights = 2
   \<and> get_loss_upweights =
       [float32 (float32 (1 / 3694) / max (float32 (1 / 3694)) (float32 (1 / 1101))),
        float32 (float32 (1 / 1101) / max (float32 (1 / 3694)) (float32 (1 / 1101)))]
   \<and> get_loss_upweights = [312529 / 1048576, 1]
   \<and> \<bar>get_loss_upweights ! 0 - 1101 / 3694\<bar> < 1 / 2 ^ 25
   \<and> Max (set get_loss_upweights) = 1
   \<and> (weight (main_loss_fn a) = Some get_loss_upweights) = use_loss_weights a
   \<and> (weight (main_loss_fn a) = None) = (\<not> use_loss_weights a)"
proof -
  have "\<bar>get_loss_upweights ! 0 - 1101 / 3694\<bar> < 1 / 2 ^ 25"
    by (simp add: get_loss_upweights_value)
  moreover have "Max (set get_loss_upweights) = 1"
    by (simp add: get_loss_upweights_value)
  ultimately show ?thesis
    using get_loss_upweights_entries
    by (simp add: get_loss_upweights_value main_loss_fn_def)
qed

text \<open>
  The first entry is not \<open>1101/3694\<close>: no float is, since \<open>3694 = 2 * 1847\<close> and \<open>1847\<close>
  is an odd prime.
\<close>

theorem get_loss_upweights_not_exact: "get_loss_upweights \<noteq> [1101 / 3694, 1]"
  by (simp add: get_loss_upweights_value)

lemma backbone_dispatch_bcos:
  "model_backbone a = ''bcos'' \<Longrightarrow>
   \<exists>ld. backbone_dispatch a =
     Inr (\<lparr>net_ctor = Hubconf_resnet50 True, net_fc = BcosConv2d Original_fc 2, net_loaded = []\<rparr>, ld)"
  by (simp add: backbone_dispatch_def num_classes_def Let_def)

lemma backbone_dispatch_xdnn:
  "model_backbone a = ''xdnn'' \<Longrightarrow>
   \<exists>ld. backbone_dispatch a =
     Inr (\<lparr>net_ctor = Xfixup_resnet50, net_fc = Linear Original_fc 2,
          net_loaded = [State_dict_of xdnn_weights_file ''state_dict'' True]\<rparr>, ld)"
  by (simp add: backbone_dispatch_def num_classes_def load_state_dict_def Let_def)

lemma backbone_dispatch_vanilla:
  "model_backbone a = ''vanilla'' \<Longrightarrow>
   \<exists>ld. backbone_dispatch a =
     Inr (\<lparr>net_ctor = Torchvision_resnet50 (Some ''IMAGENET1K_V1''),
          net_fc = Linear Original_fc 2, net_loaded = []\<rparr>, ld)"
  by (simp add: backbone_dispatch_def num_classes_def Let_def)

lemma backbone_dispatch_other:
  "model_backbone a \<notin> {''bcos'', ''xdnn'', ''vanilla''} \<Longrightarrow>
   backbone_dispatch a = Inl NotImplementedError"
  by (simp add: backbone_dispatch_def Let_def)

lemma backbone_dispatch_Inr:
  "backbone_dispatch a = Inr (m, ld) \<Longrightarrow>
   imagenet_pretrained m \<and> out_features (net_fc m) = Some 2"
  by (auto simp: backbone_dispatch_def imagenet_pretrained_def num_classes_def
      load_state_dict_def Let_def split: if_splits)

text \<open>
  Claim C5. For each of the backbones \<^verbatim>\<open>bcos\<close>, \<^verbatim>\<open>xdnn\<close> and \<^verbatim>\<open>vanilla\<close>, \<^verbatim>\<open>main\<close> builds a
  ResNet-50 variant (the B-cos network of \<^verbatim>\<open>hubconf\<close>, the fixup network, the torchvision
  network) that starts from pretrained weights, and replaces its last layer by one with
  exactly 2 outputs (\<^verbatim>\<open>num_classes = 2\<close>); for any other backbone the dispatch raises
  \<^verbatim>\<open>NotImplementedError\<close>.
\<close>

theorem backbone_dispatch_spec:
  "(model_backbone a = ''bcos'' \<longrightarrow>
      (\<exists>ld. backbone_dispatch a =
         Inr (\<lparr>net_ctor = Hubconf_resnet50 True, net_fc = BcosConv2d Original_fc 2,
               net_loaded = []\<rparr>, ld)))
   \<and> (model_backbone a = ''xdnn'' \<longrightarrow>
      (\<exists>ld. backbone_dispatch a =
         Inr (\<lparr>net_ctor = Xfixup_resnet50, net_fc = Linear Original_fc 2,
               net_loaded = [State_dict_of xdnn_weights_file ''state_dict'' True]\<rparr>, ld)))
   \<and> (model_backbone a = ''vanilla'' \<longrightarrow>
      (\<exists>ld. backbone_dispatch a =
         Inr (\<lparr>net_ctor = Torchvision_resnet50 (Some ''IMAGENET1K_V1''),
               net_fc = Linear Original_fc 2, net_loaded = []\<rparr>, ld)))
   \<and> (model_backbone a \<notin> {''bcos'', ''xdnn'', ''vanilla''} \<longrightarrow>
      backbone_dispatch a = Inl NotImplementedError)
   \<and> (\<forall>m ld. backbone_dispatch a = Inr (m, ld) \<longrightarrow>
      imagenet_pretrained m \<and> out_features (net_fc m) = Some 2)
   \<and> num_classes = 2"
  using backbone_dispatch_bcos [of a] backbone_dispatch_xdnn [of a]
    backbone_dispatch_vanilla [of a] backbone_dispatch_other [of a]
    backbone_dispatch_Inr [of a]
  by (simp add: num_classes_def)

theorem backbone_dispatch_spec_witness:
  "(\<exists>ld. backbone_dispatch example_args =
         Inr (\<lparr>net_ctor = Hubconf_resnet50 True, net_fc = BcosConv2d Original_fc 2,
               net_loaded = []\<rparr>, ld))
   \<and> (\<exists>ld. backbone_dispatch (example_args\<lparr>model_backbone := ''xdnn''\<rparr>) =
         Inr (\<lparr>net_ctor = Xfixup_resnet50, net_fc = Linear Original_fc 2,
               net_loaded = [State_dict_of xdnn_weights_file ''state_dict'' True]\<rparr>, ld))
   \<and> (\<exists>ld. backbone_dispatch (example_args\<lparr>model_backbone := ''vanilla''\<rparr>) =
         Inr (\<lparr>net_ctor = Torchvision_resnet50 (Some ''IMAGENET1K_V1''),
               net_fc = Linear Original_fc 2, net_loaded = []\<rparr>, ld))
   \<and> backbone_dispatch (example_args\<lparr>model_backbone := ''resnet18''\<rparr>) =
         Inl NotImplementedError"
  using backbone_dispatch_spec [of example_args]
    backbone_dispatch_spec [of "example_args\<lparr>model_backbone := ''xdnn''\<rparr>"]
    backbone_dispatch_spec [of "example_args\<lparr>model_backbone := ''vanilla''\<rparr>"]
    backbone_dispatch_spec [of "example_args\<lparr>model_backbone := ''resnet18''\<rparr>"]
  by (simp add: example_args_def)

text \<open>
  Claim C7. Training starts from a pretrained network: whenever \<^verbatim>\<open>main\<close> gets past the
  construction, the network carries the ImageNet weights of its backbone
  (\<^verbatim>\<open>hubconf.resnet50(pretrained=True)\<close> for bcos, the state dict of
  \<^verbatim>\<open>weights/xdnn/xfixup_resnet50_model_best.pth.tar\<close> for xdnn, \<^verbatim>\<open>IMAGENET1K_V1\<close> for
  vanilla); without \<^verbatim>\<open>--model_path\<close> nothing else is loaded, and with it the state dict
  of the \<^verbatim>\<open>"model"\<close> entry of that checkpoint is loaded on top, before training.
\<close>

theorem build_model_pretrained:
  assumes "model_backbone a \<in> {''bcos'', ''xdnn'', ''vanilla''}"
      and "layer a \<in> {''Input'', ''Final'', ''Mid1'', ''Mid2'', ''Mid3''}"
  shows "\<exists>m layer_idx. build_model a = Inr (m, layer_idx)
     \<and> imagenet_pretrained m
     \<and> net_ctor m =
         (if model_backbone a = ''bcos'' then Hubconf_resnet50 True
          else if model_backbone a = ''xdnn'' then Xfixup_resnet50
          else Torchvision_resnet50 (Some ''IMAGENET1K_V1''))
     \<and> net_loaded m =
         (if model_backbone a = ''xdnn''
          then [State_dict_of xdnn_weights_file ''state_dict'' True] else [])
         @ (case model_path a of
              None \<Rightarrow> []
            | Some path \<Rightarrow> [State_dict_of path ''model'' False])"
  using assms
  by (auto simp: build_model_def backbone_dispatch_def imagenet_pretrained_def
      load_state_dict_def Let_def split: option.splits)

theorem build_model_pretrained_witness:
  "(\<exists>m layer_idx. build_model example_args = Inr (m, layer_idx)
       \<and> imagenet_pretrained m \<and> net_ctor m = Hubconf_resnet50 True \<and> net_loaded m = [])
   \<and> (\<exists>m layer_idx.
         build_model (example_args\<lparr>model_backbone := ''xdnn'', model_path := Some ''run/ckpt.pt''\<rparr>)
           = Inr (m, layer_idx)
       \<and> imagenet_pretrained m \<and> net_ctor m = Xfixup_resnet50
       \<and> net_loaded m = [State_dict_of xdnn_weights_file ''state_dict'' True,
                          State_dict_of ''run/ckpt.pt'' ''model'' False])"
  using build_model_pretrained [of example_args]
    build_model_pretrained
      [of "example_args\<lparr>model_backbone := ''xdnn'', model_path := Some ''run/ckpt.pt''\<rparr>"]
  by (simp add: example_args_def)

lemma build_model_ok:
  assumes "model_backbone a \<in> {''bcos'', ''xdnn'', ''vanilla''}"
      and "layer a \<in> {''Input'', ''Final'', ''Mid1'', ''Mid2'', ''Mid3''}"
  shows "\<exists>x. build_model a = Inr x"
  using assms
  by (auto simp: build_model_def backbone_dispatch_def Let_def split: option.splits)

lemma main_setup_data:
  assumes "main_setup env a network layer_idx = Inr (cx, st0)"
  shows "cx_train_data cx = main_train_data a \<and> cx_val_data cx = main_val_data a
       \<and> cx_test_data cx = main_test_data a
       \<and> cx_num_train_batches cx
           = real (env_len env (main_train_data a)) / of_int (train_batch_size a)
       \<and> cx_num_val_batches cx
           = real (env_len env (main_val_data a)) / of_int (eval_batch_size a)
       \<and> cx_num_test_batches cx
           = real (env_len env (main_test_data a)) / of_int (eval_batch_size a)"
  using assms
  by (auto simp: main_setup_def Let_def split: if_splits sum.splits)

lemma main_setup_ok:
  assumes "train_batch_size a \<noteq> 0" and "eval_batch_size a \<noteq> 0"
      and "truthy (attribution_method a) \<noteq> None \<longrightarrow> truthy (localization_loss_fn a) \<noteq> None"
  shows "\<exists>cx st0. main_setup env a network layer_idx = Inr (cx, st0)"
  using assms
  by (auto simp: main_setup_def main_attributor_def Let_def split: option.splits)

text \<open>
  Claim C4. In every run that reaches the training loop, the train, validation and test
  sets that \<^verbatim>\<open>main\<close> binds, measures for its batch counts and hands to its loaders are
  \<^verbatim>\<open>WaterbirdsDetectParsed\<close> data sets with the image sets \<^verbatim>\<open>train\<close>, \<^verbatim>\<open>val\<close> and \<^verbatim>\<open>test\<close>,
  whose root is joined from \<^verbatim>\<open>--data_path\<close>, \<^verbatim>\<open>--dataset\<close> and \<^verbatim>\<open>birds_processed/\<close> when
  the task is \<^verbatim>\<open>birds\<close>, \<^verbatim>\<open>background_processed/\<close> otherwise; this holds for every value
  of \<^verbatim>\<open>--dataset\<close>, also \<^verbatim>\<open>VOC2007\<close> and \<^verbatim>\<open>COCO2014\<close>. The loop is reached whenever the
  batch sizes are not zero and an attribution method comes with a localization loss.
\<close>

theorem main_loads_waterbirds:
  "(\<forall>cx st0. main_setup env a network layer_idx = Inr (cx, (st0 :: ('sd, 'o) main_state)) \<longrightarrow>
      map (\<lambda>d. (ds_root d, ds_image_set d)) [cx_train_data cx, cx_val_data cx, cx_test_data cx]
        = (let root = os_path_join (data_path a)
                        [dataset a,
                         if task a = ''birds'' then ''birds_processed/''
                         else ''background_processed/'']
           in [(root, ''train''), (root, ''val''), (root, ''test'')])
    \<and> cx_num_train_batches cx
        = real (env_len env (cx_train_data cx)) / of_int (train_batch_size a)
    \<and> cx_num_val_batches cx = real (env_len env (cx_val_data cx)) / of_int (eval_batch_size a)
    \<and> cx_num_test_batches cx
        = real (env_len env (cx_test_data cx)) / of_int (eval_batch_size a)
    \<and> (\<forall>e m opt.
          train_epoch env a cx e m opt =
            (let train_loader = env_loader env (cx_train_data cx) (train_batch_size a) e
             in fold_err (train_batch env a cx e) (zip [0..<length train_loader] train_loader)
                  \<lparr>ep_model = m, ep_optimizer = opt, ep_total_loss = Py_int 0,
                   ep_total_class_loss = Py_int 0, ep_total_localization_loss = Py_int 0\<rparr>))
    \<and> (\<forall>m writer e.
          eval_val env a cx m writer e =
          eval_model env (cx_activator cx) m (cx_eval_attributor cx)
            (env_loader env (cx_val_data cx) (eval_batch_size a) 0)
            (cx_num_val_batches cx) num_classes (cx_loss_fn cx) writer (Some e)
            (Some GROUP_NAMES))
    \<and> (\<forall>m. eval_test env a cx m =
          eval_model env (cx_activator cx) m (cx_eval_attributor cx)
            (env_loader env (cx_test_data cx) (eval_batch_size a) 0)
            (cx_num_test_batches cx) num_classes (cx_loss_fn cx) None None (Some GROUP_NAMES)))
   \<and> (train_batch_size a \<noteq> 0 \<and> eval_batch_size a \<noteq> 0
      \<and> (truthy (attribution_method a) \<noteq> None \<longrightarrow> truthy (localization_loss_fn a) \<noteq> None) \<longrightarrow>
      (\<exists>cx st0. main_setup env a network layer_idx = Inr (cx, (st0 :: ('sd, 'o) main_state))))"
proof -
  have "map (\<lambda>d. (ds_root d, ds_image_set d))
          [main_train_data a, main_val_data a, main_test_data a]
        = (let root = os_path_join (data_path a)
                        [dataset a,
                         if task a = ''birds'' then ''birds_processed/''
                         else ''background_processed/'']
           in [(root, ''train''), (root, ''val''), (root, ''test'')])"
    by (simp add: main_train_data_def main_val_data_def main_test_data_def main_root_def
        Let_def)
  then show ?thesis
    using main_setup_data [of env a network layer_idx]
      main_setup_ok [of a env network layer_idx]
    by (simp add: train_epoch_def eval_test_def eval_val_def)
qed

theorem main_loads_waterbirds_witness:
  "\<exists>cx st0.
     main_setup example_env (example_args\<lparr>dataset := ''VOC2007''\<rparr>)
       \<lparr>net_ctor = Hubconf_resnet50 True, net_fc = BcosConv2d Original_fc 2, net_loaded = []\<rparr>
       None = Inr (cx, (st0 :: (nat, unit) main_state))
     \<and> map (\<lambda>d. (ds_root d, ds_image_set d)) [cx_train_data cx, cx_val_data cx, cx_test_data cx] =
         [(''datasets/VOC2007/birds_processed/'', ''train''),
          (''datasets/VOC2007/birds_processed/'', ''val''),
          (''datasets/VOC2007/birds_processed/'', ''test'')]
     \<and> cx_num_train_batches cx = 2 / 16"
proof -
  have t: "truthy (Some ''BCos'') \<noteq> None" "truthy (Some ''Energy'') \<noteq> None"
    by (simp_all add: truthy_def)
  from main_loads_waterbirds [of example_env "example_args\<lparr>dataset := ''VOC2007''\<rparr>"
      "\<lparr>net_ctor = Hubconf_resnet50 True, net_fc = BcosConv2d Original_fc 2, net_loaded = []\<rparr>"
      None] t
  show ?thesis
    by (simp add: example_args_def example_env_def os_path_join_def path_join2_def Let_def)
      blast
qed

lemma train_image_fold_value:
  assumes "fold_err (train_image env a (Some name) attributions gt bbs) idxs acc = Inr r"
  shows "accum_value r = accum_value acc
           + sum_list (map (\<lambda>i. env_loss_loc env name (attributions ! i)
                                   (train_bb_list env a (the (bbs ! i)) (gt ! i)))
                        (filter (\<lambda>i. bbs ! i \<noteq> None) idxs))"
  using assms
proof (induction idxs arbitrary: acc)
  case Nil
  then show ?case by simp
next
  case (Cons i idxs)
  then show ?case
    by (auto simp: train_image_def accum_add_def Let_def
        split: if_splits option.splits sum.splits)
qed

lemma train_image_fold_no_loss:
  assumes "fold_err (train_image env a None attributions gt bbs) idxs acc = Inr r"
  shows "filter (\<lambda>i. bbs ! i \<noteq> None) idxs = [] \<and> r = acc"
  using assms
proof (induction idxs arbitrary: acc)
  case Nil
  then show ?case by simp
next
  case (Cons i idxs)
  then show ?case
    by (auto simp: train_image_def Let_def split: if_splits option.splits sum.splits)
qed

lemma train_image_fold_total:
  assumes "\<forall>i \<in> set idxs. i < length bbs \<and> i < length gt \<and> i < length attributions"
  shows "\<exists>r. fold_err (train_image env a (Some name) attributions gt bbs) idxs acc = Inr r"
  using assms
proof (induction idxs arbitrary: acc)
  case Nil
  then show ?case by simp
next
  case (Cons i idxs)
  then show ?case
    by (cases "bbs ! i") (simp_all add: train_image_def Let_def)
qed

lemma train_batch_loss_value:
  assumes "train_batch_loss env a act loss_fn loss_loc attr m e i data = Inr l"
  shows "bl_batch_loss l =
           classification_loss env act loss_fn m data
           + (if optimize_explanations a
              then localization_loss_lambda a
                     * localization_term env a act loss_loc attr m e i data
              else 0)"
proof (cases "optimize_explanations a")
  case False
  with assms show ?thesis
    by (auto simp: train_batch_loss_def classification_loss_def accum_add_def Let_def
        split: prod.splits)
next
  case True
  obtain logits features where fw: "env_forward env act m (batch_X data) = (logits, features)"
    by (cases "env_forward env act m (batch_X data)")
  from assms True obtain atr where atr: "attr = Some atr"
    by (cases attr) (auto simp: train_batch_loss_def Let_def split: prod.splits)
  define gt where "gt = env_targets env e i (batch_y data)"
  define attributions where "attributions = env_attribute_batch env atr m features logits gt"
  from assms True fw atr obtain r where
    fold: "fold_err (train_image env a loss_loc attributions gt (batch_bbs data))
             [0..<length (batch_X data)] (Py_int 0) = Inr r"
    and l: "bl_batch_loss l =
              env_loss env loss_fn logits (batch_y data)
              + localization_loss_lambda a * accum_value r"
    by (auto simp: train_batch_loss_def accum_add_def Let_def gt_def attributions_def
        split: sum.splits)
  show ?thesis
  proof (cases loss_loc)
    case None
    with fold have "r = Py_int 0"
      using train_image_fold_no_loss by blast
    with l None True fw show ?thesis
      by (simp add: classification_loss_def localization_term_def)
  next
    case (Some name)
    with fold have
      "accum_value r =
         sum_list (map (\<lambda>i. env_loss_loc env name (attributions ! i)
                                (train_bb_list env a (the (batch_bbs data ! i)) (gt ! i)))
                     (annotated data))"
      using train_image_fold_value [of env a name attributions gt "batch_bbs data"
          "[0..<length (batch_X data)]" "Py_int 0" r]
      by (simp add: annotated_def)
    with l Some True fw atr show ?thesis
      by (simp add: classification_loss_def localization_term_def localization_sum_def
          gt_def attributions_def Let_def)
  qed
qed

lemma train_batch_loss_total:
  assumes "optimize_explanations a \<longrightarrow>
             attr = Some atr \<and> loss_loc = Some name \<and> batch_ok env e i atr act m data"
  shows "\<exists>l. train_batch_loss env a act loss_fn loss_loc attr m e i data = Inr l"
proof (cases "optimize_explanations a")
  case False
  then show ?thesis
    by (simp add: train_batch_loss_def Let_def split: prod.splits)
next
  case True
  obtain logits features where fw: "env_forward env act m (batch_X data) = (logits, features)"
    by (cases "env_forward env act m (batch_X data)")
  define gt where "gt = env_targets env e i (batch_y data)"
  define attributions where "attributions = env_attribute_batch env atr m features logits gt"
  from assms True fw have
    "\<forall>k \<in> set [0..<length (batch_X data)].
       k < length (batch_bbs data) \<and> k < length gt \<and> k < length attributions"
    by (auto simp: batch_ok_def Let_def gt_def attributions_def)
  then obtain r where
    "fold_err (train_image env a (Some name) attributions gt (batch_bbs data))
       [0..<length (batch_X data)] (Py_int 0) = Inr r"
    using train_image_fold_total by blast
  with assms True fw show ?thesis
    by (simp add: train_batch_loss_def Let_def gt_def attributions_def)
qed

text \<open>
  Claim C1. For every training batch the loss that is backpropagated is the classification
  loss \<^verbatim>\<open>loss_fn(logits, train_y)\<close> when \<^verbatim>\<open>--optimize_explanations\<close> is not set, and the
  classification loss plus \<^verbatim>\<open>localization_loss_lambda\<close> times the sum of
  \<^verbatim>\<open>loss_loc(attributions[img_idx], bb_list)\<close> over the images of the batch whose annotation
  is not \<^verbatim>\<open>None\<close> when it is set. The loss is computed (nothing raises) without the flag,
  and with the flag when the attributor and the localization loss exist and the batch
  has an annotation slot, a target class and an attribution map for each image.
\<close>

theorem train_batch_loss_spec:
  "(\<forall>l. train_batch_loss env a act loss_fn loss_loc attr m e i data = Inr l \<longrightarrow>
       bl_loss l = classification_loss env act loss_fn m data
     \<and> bl_batch_loss l =
         classification_loss env act loss_fn m data
         + (if optimize_explanations a
            then localization_loss_lambda a
                   * localization_term env a act loss_loc attr m e i data
            else 0))
   \<and> ((optimize_explanations a \<longrightarrow>
         attr = Some atr \<and> loss_loc = Some name \<and> batch_ok env e i atr act m data) \<longrightarrow>
       (\<exists>l. train_batch_loss env a act loss_fn loss_loc attr m e i data = Inr l))"
proof -
  have "bl_loss l = classification_loss env act loss_fn m data"
    if "train_batch_loss env a act loss_fn loss_loc attr m e i data = Inr l" for l
    using that
    by (auto simp: train_batch_loss_def classification_loss_def Let_def
        split: prod.splits if_splits option.splits sum.splits)
  then show ?thesis
    using train_batch_loss_value [of env a act loss_fn loss_loc attr m e i data]
      train_batch_loss_total [of a attr atr loss_loc name env e i act m data loss_fn]
    by blast
qed


theorem train_batch_loss_spec_witness:
  "train_batch_loss example_env example_args example_activator (BCEWithLogitsLoss None)
     (Some ''Energy'') (Some example_attributor) example_model 0 0 example_batch
   = Inr \<lparr>bl_batch_loss = 3 + 1 * 17, bl_loss = 3, bl_localization_loss = Tensor 17\<rparr>
   \<and> annotated example_batch = [0]
   \<and> localization_term example_env example_args example_activator (Some ''Energy'')
        (Some example_attributor) example_model 0 0 example_batch = 17
   \<and> train_batch_loss example_env (example_args\<lparr>optimize_explanations := False\<rparr>)
        example_activator (BCEWithLogitsLoss None) (Some ''Energy'') (Some example_attributor)
        example_model 0 0 example_batch
      = Inr \<lparr>bl_batch_loss = 3, bl_loss = 3, bl_localization_loss = Py_int 0\<rparr>"
  using train_batch_loss_spec [of example_env example_args example_activator
      "BCEWithLogitsLoss None" "Some ''Energy''" "Some example_attributor" example_model 0 0
      example_batch example_attributor "''Energy''"]
    train_batch_loss_spec [of example_env "example_args\<lparr>optimize_explanations := False\<rparr>"
      example_activator "BCEWithLogitsLoss None" "Some ''Energy''" "Some example_attributor"
      example_model 0 0 example_batch example_attributor "''Energy''"]
  by (simp add: train_batch_loss_def train_image_def train_bb_list_def accum_add_def
      localization_term_def localization_sum_def annotated_def example_env_def
      example_args_def example_batch_def Let_def upt_rec)

lemma fold_err_preserves:
  assumes "\<And>x s s'. f x s = Inr s' \<Longrightarrow> g s' = g s"
      and "fold_err f xs s = Inr s'"
  shows "g s' = g s"
  using assms(2)
proof (induction xs arbitrary: s)
  case Nil
  then show ?case by simp
next
  case (Cons x xs)
  then show ?case
    using assms(1) by (auto split: sum.splits)
qed

lemma eval_pred_core:
  "eval_pred env atr m features logits bbs img_idx pred v = Inr v' \<Longrightarrow>
   eval_core v' = eval_core v"
  by (auto simp: eval_pred_def eval_core_def Let_def split: if_splits option.splits)

lemma eval_image_core:
  "eval_image env atr m features logits data img_idx v = Inr v' \<Longrightarrow>
   eval_core v' = eval_core v"
proof -
  assume r: "eval_image env atr m features logits data img_idx v = Inr v'"
  then have "fold_err (eval_pred env atr m features logits (batch_bbs data) img_idx)
               (where_one (batch_y data ! img_idx)) v = Inr v'"
    by (simp add: eval_image_def Let_def split: if_splits)
  then show ?thesis
    using eval_pred_core
    by (rule fold_err_preserves [rotated])
qed

lemma eval_batch_core:
  assumes "eval_batch env act m attr loss_fn d v = Inr v'"
  shows "eval_core v' =
           (accum_add (ev_total_loss v) (env_loss env loss_fn (batch_logits env act m d) (batch_y d)),
            ev_acc_metric v @ [(batch_logits env act m d, batch_y d)],
            ev_grouped_accuracy v @ [(batch_logits env act m d, batch_y d, batch_groups d)],
            ev_group_names v)"
proof -
  obtain logits features where fw: "env_forward env act m (batch_X d) = (logits, features)"
    by (cases "env_forward env act m (batch_X d)")
  show ?thesis
  proof (cases attr)
    case None
    with assms fw show ?thesis
      by (auto simp: eval_batch_def eval_core_def batch_logits_def Let_def)
  next
    case (Some atr)
    define v1 where "v1 = v\<lparr>ev_total_loss :=
        accum_add (ev_total_loss v) (env_loss env loss_fn logits (batch_y d)),
        ev_acc_metric := ev_acc_metric v @ [(logits, batch_y d)],
        ev_grouped_accuracy := ev_grouped_accuracy v @ [(logits, batch_y d, batch_groups d)]\<rparr>"
    from assms fw Some have
      "fold_err (eval_image env atr m features logits d) [0..<length (batch_X d)] v1 = Inr v'"
      by (simp add: eval_batch_def Let_def v1_def)
    then have "eval_core v' = eval_core v1"
      using eval_image_core
      by (rule fold_err_preserves [rotated])
    then show ?thesis
      using fw by (simp add: eval_core_def v1_def batch_logits_def)
  qed
qed

lemma eval_batch_no_attributor:
  "eval_batch env act m None loss_fn d v = Inr v' \<Longrightarrow>
   ev_bb_metric v' = ev_bb_metric v \<and> ev_iou_metric v' = ev_iou_metric v"
  by (auto simp: eval_batch_def Let_def split: prod.splits)

lemma eval_loop_core:
  assumes "fold_err (eval_batch env act m attr loss_fn) loader v = Inr v'"
  shows "accum_value (ev_total_loss v') =
           accum_value (ev_total_loss v)
           + sum_list (map (\<lambda>d. env_loss env loss_fn (batch_logits env act m d) (batch_y d)) loader)
       \<and> ev_acc_metric v' =
           ev_acc_metric v @ map (\<lambda>d. (batch_logits env act m d, batch_y d)) loader
       \<and> ev_grouped_accuracy v' =
           ev_grouped_accuracy v
           @ map (\<lambda>d. (batch_logits env act m d, batch_y d, batch_groups d)) loader
       \<and> ev_group_names v' = ev_group_names v"
  using assms
proof (induction loader arbitrary: v)
  case Nil
  then show ?case by simp
next
  case (Cons d loader)
  from Cons.prems obtain v1 where
    step: "eval_batch env act m attr loss_fn d v = Inr v1"
    and rest: "fold_err (eval_batch env act m attr loss_fn) loader v1 = Inr v'"
    by (auto split: sum.splits)
  from eval_batch_core [OF step] have
    "ev_total_loss v1 =
       accum_add (ev_total_loss v) (env_loss env loss_fn (batch_logits env act m d) (batch_y d))"
    "ev_acc_metric v1 = ev_acc_metric v @ [(batch_logits env act m d, batch_y d)]"
    "ev_grouped_accuracy v1 =
       ev_grouped_accuracy v @ [(batch_logits env act m d, batch_y d, batch_groups d)]"
    "ev_group_names v1 = ev_group_names v"
    by (simp_all add: eval_core_def)
  with Cons.IH [OF rest] show ?case
    by (simp add: accum_add_def)
qed

lemma eval_loop_no_attributor:
  assumes "fold_err (eval_batch env act m None loss_fn) loader v = Inr v'"
  shows "ev_bb_metric v' = ev_bb_metric v \<and> ev_iou_metric v' = ev_iou_metric v"
  using assms
proof (induction loader arbitrary: v)
  case Nil
  then show ?case by simp
next
  case (Cons d loader)
  then show ?case
    using eval_batch_no_attributor by (fastforce split: sum.splits)
qed

lemma eval_loop_total_no_attributor:
  "\<exists>v'. fold_err (eval_batch env act m None loss_fn) loader v = Inr v'"
  by (induction loader arbitrary: v) (simp_all add: eval_batch_def Let_def split: prod.splits)

lemma eval_loop_tensor:
  assumes "fold_err (eval_batch env act m attr loss_fn) loader v = Inr v'"
      and "loader \<noteq> []"
  shows "\<exists>r. ev_total_loss v' = Tensor r"
  using assms
proof (induction loader arbitrary: v)
  case Nil
  then show ?case by simp
next
  case (Cons d loader)
  from Cons.prems obtain v1 where
    step: "eval_batch env act m attr loss_fn d v = Inr v1"
    and rest: "fold_err (eval_batch env act m attr loss_fn) loader v1 = Inr v'"
    by (auto split: sum.splits)
  from eval_batch_core [OF step] have t: "\<exists>r. ev_total_loss v1 = Tensor r"
    by (simp add: eval_core_def accum_add_def)
  show ?case
  proof (cases "loader = []")
    case True
    with rest t show ?thesis by simp
  next
    case False
    with Cons.IH [OF rest] show ?thesis by simp
  qed
qed

lemma item_Inr: "(item t = Inr r) = (t = Tensor r)"
  by (cases t) auto

text \<open>What a returning call of \<^verbatim>\<open>eval_model\<close> has done.\<close>

lemma eval_model_Inr:
  assumes "eval_model env act model attr loader nb nc loss_fn writer epoch gn = Inr out"
  shows "\<exists>v total_loss.
           fold_err (eval_batch env act (model\<lparr>training := False\<rparr>) attr loss_fn) loader
             \<lparr>ev_total_loss = Py_int 0, ev_acc_metric = [], ev_grouped_accuracy = [],
              ev_bb_metric = [], ev_iou_metric = [], ev_group_names = gn\<rparr> = Inr v
         \<and> ev_total_loss v = Tensor total_loss \<and> nb \<noteq> 0
         \<and> eo_vars out = v \<and> ev_group_names v = gn
         \<and> eo_model out = model\<lparr>training := True\<rparr>
         \<and> eo_metric_vals out =
             (case attr of
                None \<Rightarrow> env_acc_compute env nc 0 (ev_acc_metric v)
              | Some atr \<Rightarrow>
                  (env_acc_compute env nc 0 (ev_acc_metric v))
                    (''BB-Loc'' \<mapsto> env_bb_compute env (ev_bb_metric v),
                     ''BB-IoU'' \<mapsto> env_iou_compute env (ev_iou_metric v)))
             (''Average-Loss'' \<mapsto> PFloat (total_loss / nb))"
proof -
  define v0 :: "'b eval_vars" where
    "v0 = \<lparr>ev_total_loss = Py_int 0, ev_acc_metric = [], ev_grouped_accuracy = [],
           ev_bb_metric = [], ev_iou_metric = [], ev_group_names = gn\<rparr>"
  have g: "ev_group_names v = gn"
    if "fold_err (eval_batch env act (model\<lparr>training := False\<rparr>) attr loss_fn) loader v0
          = Inr v" for v
    using eval_loop_core [OF that] by (simp add: v0_def)
  from assms show ?thesis
    unfolding v0_def [symmetric]
    by (auto simp: eval_model_def Let_def item_Inr v0_def [symmetric] g
        split: sum.splits if_splits option.splits)
qed

lemma eval_pred_bb:
  assumes "eval_pred env atr m features logits bbs img_idx pred v = Inr v'"
  shows "ev_bb_metric v' =
           ev_bb_metric v
           @ [(env_attribute env atr m features logits pred img_idx,
               env_filter_bbs env (the (bbs ! img_idx)) pred)]
       \<and> ev_iou_metric v' =
           ev_iou_metric v
           @ [(env_attribute env atr m features logits pred img_idx,
               env_filter_bbs env (the (bbs ! img_idx)) pred)]"
  using assms
  by (auto simp: eval_pred_def Let_def split: if_splits option.splits)

lemma eval_pred_fold_bb:
  assumes "fold_err (eval_pred env atr m features logits bbs img_idx) preds v = Inr v'"
  shows "ev_bb_metric v' =
           ev_bb_metric v
           @ map (\<lambda>pred. (env_attribute env atr m features logits pred img_idx,
                           env_filter_bbs env (the (bbs ! img_idx)) pred)) preds
       \<and> ev_iou_metric v' =
           ev_iou_metric v
           @ map (\<lambda>pred. (env_attribute env atr m features logits pred img_idx,
                           env_filter_bbs env (the (bbs ! img_idx)) pred)) preds"
  using assms
proof (induction preds arbitrary: v)
  case Nil
  then show ?case by simp
next
  case (Cons p preds)
  from Cons.prems obtain v1 where
    s: "eval_pred env atr m features logits bbs img_idx p v = Inr v1"
    and r: "fold_err (eval_pred env atr m features logits bbs img_idx) preds v1 = Inr v'"
    by (auto split: sum.splits)
  from eval_pred_bb [OF s] Cons.IH [OF r] show ?case
    by simp
qed

lemma eval_image_bb:
  assumes fw: "env_forward env act m (batch_X data) = (logits, features)"
      and "eval_image env atr m features logits data img_idx v = Inr v'"
  shows "ev_bb_metric v' = ev_bb_metric v @ image_attributions env act atr m data img_idx
       \<and> ev_iou_metric v' = ev_iou_metric v @ image_attributions env act atr m data img_idx"
proof -
  from assms(2) have
    "fold_err (eval_pred env atr m features logits (batch_bbs data) img_idx)
       (where_one (batch_y data ! img_idx)) v = Inr v'"
    by (simp add: eval_image_def Let_def split: if_splits)
  from eval_pred_fold_bb [OF this] fw show ?thesis
    by (simp add: image_attributions_def batch_features_def batch_logits_def)
qed

lemma eval_image_fold_bb:
  assumes fw: "env_forward env act m (batch_X data) = (logits, features)"
      and "fold_err (eval_image env atr m features logits data) idxs v = Inr v'"
  shows "ev_bb_metric v' =
           ev_bb_metric v @ concat (map (image_attributions env act atr m data) idxs)
       \<and> ev_iou_metric v' =
           ev_iou_metric v @ concat (map (image_attributions env act atr m data) idxs)"
  using assms(2)
proof (induction idxs arbitrary: v)
  case Nil
  then show ?case by simp
next
  case (Cons i idxs)
  from Cons.prems obtain v1 where
    s: "eval_image env atr m features logits data i v = Inr v1"
    and r: "fold_err (eval_image env atr m features logits data) idxs v1 = Inr v'"
    by (auto split: sum.splits)
  from eval_image_bb [OF fw s] Cons.IH [OF r] show ?case
    by simp
qed

lemma eval_batch_bb:
  assumes "eval_batch env act m (Some atr) loss_fn data v = Inr v'"
  shows "ev_bb_metric v' = ev_bb_metric v @ batch_attributions env act atr m data
       \<and> ev_iou_metric v' = ev_iou_metric v @ batch_attributions env act atr m data"
proof -
  obtain logits features where fw: "env_forward env act m (batch_X data) = (logits, features)"
    by (cases "env_forward env act m (batch_X data)")
  define v1 where "v1 = v\<lparr>ev_total_loss :=
      accum_add (ev_total_loss v) (env_loss env loss_fn logits (batch_y data)),
      ev_acc_metric := ev_acc_metric v @ [(logits, batch_y data)],
      ev_grouped_accuracy :=
        ev_grouped_accuracy v @ [(logits, batch_y data, batch_groups data)]\<rparr>"
  from assms fw have
    "fold_err (eval_image env atr m features logits data) [0..<length (batch_X data)] v1
       = Inr v'"
    by (simp add: eval_batch_def Let_def v1_def)
  from eval_image_fold_bb [OF fw this] show ?thesis
    by (simp add: v1_def batch_attributions_def)
qed

lemma eval_loop_bb:
  assumes "fold_err (eval_batch env act m (Some atr) loss_fn) loader v = Inr v'"
  shows "ev_bb_metric v' = ev_bb_metric v @ eval_attributions env act atr m loader
       \<and> ev_iou_metric v' = ev_iou_metric v @ eval_attributions env act atr m loader"
  using assms
proof (induction loader arbitrary: v)
  case Nil
  then show ?case by (simp add: eval_attributions_def)
next
  case (Cons d loader)
  from Cons.prems obtain v1 where
    s: "eval_batch env act m (Some atr) loss_fn d v = Inr v1"
    and r: "fold_err (eval_batch env act m (Some atr) loss_fn) loader v1 = Inr v'"
    by (auto split: sum.splits)
  from eval_batch_bb [OF s] Cons.IH [OF r] show ?case
    by (simp add: eval_attributions_def)
qed

text \<open>\<^verbatim>\<open>eval_model\<close> reads neither the optimizer nor the update step.\<close>

lemma eval_pred_frame:
  "eval_pred (env\<lparr>env_step := step, env_optimizer := opt\<rparr>) = eval_pred env"
  by (intro ext) (simp add: eval_pred_def Let_def split: option.splits)

lemma eval_image_frame:
  "eval_image (env\<lparr>env_step := step, env_optimizer := opt\<rparr>) = eval_image env"
  by (intro ext) (simp add: eval_image_def eval_pred_frame Let_def split: option.splits)

lemma eval_batch_frame:
  "eval_batch (env\<lparr>env_step := step, env_optimizer := opt\<rparr>) = eval_batch env"
  by (intro ext) (simp add: eval_batch_def eval_image_frame Let_def split: option.splits prod.splits)

lemma eval_model_frame:
  "eval_model (env\<lparr>env_step := step, env_optimizer := opt\<rparr>) act model attr loader nb nc
     loss_fn writer epoch gn
   = eval_model env act model attr loader nb nc loss_fn writer epoch gn"
  by (simp add: eval_model_def eval_batch_frame Let_def split: sum.splits option.splits)

lemma eval_model_total_plain:
  assumes "loader \<noteq> []" and "nb \<noteq> 0"
  shows "\<exists>out. eval_model env act model None loader nb nc loss_fn None epoch gn = Inr out"
proof -
  obtain v where
    v: "fold_err (eval_batch env act (model\<lparr>training := False\<rparr>) None loss_fn) loader
          \<lparr>ev_total_loss = Py_int 0, ev_acc_metric = [], ev_grouped_accuracy = [],
           ev_bb_metric = [], ev_iou_metric = [], ev_group_names = gn\<rparr> = Inr v"
    using eval_loop_total_no_attributor by blast
  from eval_loop_tensor [OF v assms(1)] obtain r where "ev_total_loss v = Tensor r"
    by blast
  with v assms(2) show ?thesis
    by (simp add: eval_model_def Let_def)
qed

text \<open>The facts about a returning call, with the loop resolved.\<close>

lemma eval_model_returns:
  assumes "eval_model env act model attr loader nb nc loss_fn writer epoch gn = Inr out"
  shows "training (eo_model out) \<and> state_dict (eo_model out) = state_dict model
       \<and> ev_group_names (eo_vars out) = gn \<and> nb \<noteq> 0
       \<and> ev_acc_metric (eo_vars out) =
           map (\<lambda>d. (batch_logits env act (model\<lparr>training := False\<rparr>) d, batch_y d)) loader
       \<and> ev_grouped_accuracy (eo_vars out) =
           map (\<lambda>d. (batch_logits env act (model\<lparr>training := False\<rparr>) d, batch_y d,
                      batch_groups d)) loader
       \<and> eo_metric_vals out ''Average-Loss'' =
           Some (PFloat
             (sum_list
                (map (\<lambda>d. env_loss env loss_fn
                            (batch_logits env act (model\<lparr>training := False\<rparr>) d) (batch_y d))
                   loader) / nb))
       \<and> eo_metric_vals out ''Accuracy'' =
           env_acc_compute env nc 0 (ev_acc_metric (eo_vars out)) ''Accuracy''"
proof -
  from eval_model_Inr [OF assms] obtain v total_loss where
    f: "fold_err (eval_batch env act (model\<lparr>training := False\<rparr>) attr loss_fn) loader
          \<lparr>ev_total_loss = Py_int 0, ev_acc_metric = [], ev_grouped_accuracy = [],
           ev_bb_metric = [], ev_iou_metric = [], ev_group_names = gn\<rparr> = Inr v"
    and t: "ev_total_loss v = Tensor total_loss" "nb \<noteq> 0"
    and o: "eo_vars out = v" "ev_group_names (eo_vars out) = gn"
       "eo_model out = model\<lparr>training := True\<rparr>"
    and mv: "eo_metric_vals out =
             (case attr of
                None \<Rightarrow> env_acc_compute env nc 0 (ev_acc_metric v)
              | Some atr \<Rightarrow>
                  (env_acc_compute env nc 0 (ev_acc_metric v))
                    (''BB-Loc'' \<mapsto> env_bb_compute env (ev_bb_metric v),
                     ''BB-IoU'' \<mapsto> env_iou_compute env (ev_iou_metric v)))
             (''Average-Loss'' \<mapsto> PFloat (total_loss / nb))"
    by blast
  from eval_loop_core [OF f] t(1) have
    c: "total_loss =
          sum_list
            (map (\<lambda>d. env_loss env loss_fn
                        (batch_logits env act (model\<lparr>training := False\<rparr>) d) (batch_y d))
               loader)"
       "ev_acc_metric v =
          map (\<lambda>d. (batch_logits env act (model\<lparr>training := False\<rparr>) d, batch_y d)) loader"
       "ev_grouped_accuracy v =
          map (\<lambda>d. (batch_logits env act (model\<lparr>training := False\<rparr>) d, batch_y d,
                     batch_groups d)) loader"
    by simp_all
  have acc: "eo_metric_vals out ''Accuracy'' = env_acc_compute env nc 0 (ev_acc_metric v) ''Accuracy''"
    using mv by (cases attr) simp_all
  have avg: "eo_metric_vals out ''Average-Loss'' = Some (PFloat (total_loss / nb))"
    using mv by simp
  from o t(2) c acc avg show ?thesis
    by simp
qed

lemma eval_model_bb:
  assumes "eval_model env act model attr loader nb nc loss_fn writer epoch gn = Inr out"
  shows "(\<forall>atr. attr = Some atr \<longrightarrow>
            ev_bb_metric (eo_vars out)
              = eval_attributions env act atr (model\<lparr>training := False\<rparr>) loader
          \<and> ev_iou_metric (eo_vars out)
              = eval_attributions env act atr (model\<lparr>training := False\<rparr>) loader
          \<and> eo_metric_vals out ''BB-Loc'' = Some (env_bb_compute env (ev_bb_metric (eo_vars out)))
          \<and> eo_metric_vals out ''BB-IoU''
              = Some (env_iou_compute env (ev_iou_metric (eo_vars out))))
       \<and> (attr = None \<longrightarrow>
            ev_bb_metric (eo_vars out) = [] \<and> ev_iou_metric (eo_vars out) = []
          \<and> eo_metric_vals out ''BB-Loc''
              = env_acc_compute env nc 0 (ev_acc_metric (eo_vars out)) ''BB-Loc''
          \<and> eo_metric_vals out ''BB-IoU''
              = env_acc_compute env nc 0 (ev_acc_metric (eo_vars out)) ''BB-IoU'')"
proof -
  from eval_model_Inr [OF assms] obtain v total_loss where
    f: "fold_err (eval_batch env act (model\<lparr>training := False\<rparr>) attr loss_fn) loader
          \<lparr>ev_total_loss = Py_int 0, ev_acc_metric = [], ev_grouped_accuracy = [],
           ev_bb_metric = [], ev_iou_metric = [], ev_group_names = gn\<rparr> = Inr v"
    and o: "eo_vars out = v"
    and mv: "eo_metric_vals out =
             (case attr of
                None \<Rightarrow> env_acc_compute env nc 0 (ev_acc_metric v)
              | Some atr \<Rightarrow>
                  (env_acc_compute env nc 0 (ev_acc_metric v))
                    (''BB-Loc'' \<mapsto> env_bb_compute env (ev_bb_metric v),
                     ''BB-IoU'' \<mapsto> env_iou_compute env (ev_iou_metric v)))
             (''Average-Loss'' \<mapsto> PFloat (total_loss / nb))"
    by blast
  show ?thesis
  proof (cases attr)
    case None
    with eval_loop_no_attributor [of env act "model\<lparr>training := False\<rparr>" loss_fn loader _ v] f
    have "ev_bb_metric v = [] \<and> ev_iou_metric v = []"
      by simp
    with None o mv show ?thesis
      by simp
  next
    case (Some atr)
    with eval_loop_bb [of env act "model\<lparr>training := False\<rparr>" atr loss_fn loader _ v] f
    have "ev_bb_metric v = eval_attributions env act atr (model\<lparr>training := False\<rparr>) loader
        \<and> ev_iou_metric v = eval_attributions env act atr (model\<lparr>training := False\<rparr>) loader"
      by simp
    with Some o mv show ?thesis
      by simp
  qed
qed

lemma eval_model_writer_accuracy:
  assumes "eval_model env act model attr loader nb nc loss_fn (Some w) epoch gn = Inr out"
  shows "''Accuracy'' \<in> dom (eo_metric_vals out)"
  using assms
  by (auto simp: eval_model_def eval_scalars_def log_scalar_def getitem_def Let_def
      split: sum.splits if_splits option.splits)

text \<open>
  Claim C10. Every call of \<^verbatim>\<open>eval_model\<close> that returns leaves the network in training
  mode with the state dict it was given: the forward passes run with the network switched
  to evaluation mode, \<^verbatim>\<open>model.train()\<close> is called before the return, and the result does
  not depend on the optimizer or its update step, which \<^verbatim>\<open>eval_model\<close> never reaches. A
  call without attributor and writer returns whenever the loader is not empty and
  \<^verbatim>\<open>num_batches\<close> is not zero.
\<close>

theorem eval_model_restores_training:
  "(\<forall>out. eval_model env act model attr loader nb nc loss_fn writer epoch gn = Inr out \<longrightarrow>
       training (eo_model out)
     \<and> state_dict (eo_model out) = state_dict model
     \<and> ev_acc_metric (eo_vars out) =
         map (\<lambda>d. (batch_logits env act (model\<lparr>training := False\<rparr>) d, batch_y d)) loader)
   \<and> eval_model (env\<lparr>env_step := step, env_optimizer := opt\<rparr>) act model attr loader nb nc
        loss_fn writer epoch gn
      = eval_model env act model attr loader nb nc loss_fn writer epoch gn
   \<and> (attr = None \<and> writer = None \<and> loader \<noteq> [] \<and> nb \<noteq> 0 \<longrightarrow>
        (\<exists>out. eval_model env act model attr loader nb nc loss_fn writer epoch gn = Inr out))"
proof -
  have "eval_model (env\<lparr>env_step := step, env_optimizer := opt\<rparr>) act model attr loader nb nc
          loss_fn writer epoch gn
        = eval_model env act model attr loader nb nc loss_fn writer epoch gn"
    by (rule eval_model_frame)
  moreover have
    "\<exists>out. eval_model env act model attr loader nb nc loss_fn writer epoch gn = Inr out"
    if "attr = None \<and> writer = None \<and> loader \<noteq> [] \<and> nb \<noteq> 0"
    using that eval_model_total_plain [where loader = loader and nb = nb] by simp
  ultimately show ?thesis
    using eval_model_returns [where env = env and act = act and model = model
        and attr = attr and loader = loader and nb = nb and nc = nc and loss_fn = loss_fn
        and writer = writer and epoch = epoch and gn = gn]
    by simp
qed

theorem eval_model_restores_training_witness:
  "\<exists>out.
     eval_model example_env example_activator (example_model\<lparr>training := False\<rparr>)
       (Some example_attributor) [example_eval_batch] (1 / 2) 2 (BCEWithLogitsLoss None)
       (Some []) (Some 0) (Some GROUP_NAMES) = Inr out
   \<and> training (eo_model out) \<and> state_dict (eo_model out) = 0
   \<and> ev_acc_metric (eo_vars out) = [(2, [[1, 0], [0, 1]])]"
proof -
  have "case eval_model example_env example_activator (example_model\<lparr>training := False\<rparr>)
          (Some example_attributor) [example_eval_batch] (1 / 2) 2 (BCEWithLogitsLoss None)
          (Some []) (Some 0) (Some GROUP_NAMES) of Inl err \<Rightarrow> False | Inr out \<Rightarrow> True"
    by code_simp
  then obtain out where
    out: "eval_model example_env example_activator (example_model\<lparr>training := False\<rparr>)
       (Some example_attributor) [example_eval_batch] (1 / 2) 2 (BCEWithLogitsLoss None)
       (Some []) (Some 0) (Some GROUP_NAMES) = Inr out"
    by (auto split: sum.splits)
  from eval_model_restores_training [where env = example_env and act = example_activator
      and model = "example_model\<lparr>training := False\<rparr>" and attr = "Some example_attributor"
      and loader = "[example_eval_batch]" and nb = "1 / 2" and nc = 2
      and loss_fn = "BCEWithLogitsLoss None" and writer = "Some []" and epoch = "Some 0"
      and gn = "Some GROUP_NAMES" and step = "env_step example_env"
      and opt = "env_optimizer example_env"] out
  show ?thesis
    by (simp add: example_model_def example_env_def example_eval_batch_def batch_logits_def)
qed

text \<open>
  Claim C3. In the dictionary \<^verbatim>\<open>eval_model\<close> returns, \<^verbatim>\<open>BB-Loc\<close> and \<^verbatim>\<open>BB-IoU\<close> are the
  values of the two bounding-box metrics when an attributor is passed; the metrics have
  then received one attribution for each image and each of its target classes. Without
  an attributor no attribution is computed, the two entries are what the accuracy metric
  put under these keys, and so, as that metric has no such keys, the two keys are present
  exactly when an attributor is passed.
\<close>

theorem eval_model_bb_metrics:
  assumes "eval_model env act model attr loader nb nc loss_fn writer epoch gn = Inr out"
  shows "(\<forall>atr. attr = Some atr \<longrightarrow>
            ev_bb_metric (eo_vars out)
              = eval_attributions env act atr (model\<lparr>training := False\<rparr>) loader
          \<and> ev_iou_metric (eo_vars out)
              = eval_attributions env act atr (model\<lparr>training := False\<rparr>) loader
          \<and> eo_metric_vals out ''BB-Loc'' = Some (env_bb_compute env (ev_bb_metric (eo_vars out)))
          \<and> eo_metric_vals out ''BB-IoU''
              = Some (env_iou_compute env (ev_iou_metric (eo_vars out))))
       \<and> (attr = None \<longrightarrow>
            ev_bb_metric (eo_vars out) = [] \<and> ev_iou_metric (eo_vars out) = []
          \<and> eo_metric_vals out ''BB-Loc''
              = env_acc_compute env nc 0 (ev_acc_metric (eo_vars out)) ''BB-Loc''
          \<and> eo_metric_vals out ''BB-IoU''
              = env_acc_compute env nc 0 (ev_acc_metric (eo_vars out)) ''BB-IoU'')
       \<and> ((\<forall>u. env_acc_compute env nc 0 u ''BB-Loc'' = None
                \<and> env_acc_compute env nc 0 u ''BB-IoU'' = None) \<longrightarrow>
            (''BB-Loc'' \<in> dom (eo_metric_vals out)) = (attr \<noteq> None)
          \<and> (''BB-IoU'' \<in> dom (eo_metric_vals out)) = (attr \<noteq> None))"
proof -
  note b = eval_model_bb [OF assms]
  have "(''BB-Loc'' \<in> dom (eo_metric_vals out)) = (attr \<noteq> None)
      \<and> (''BB-IoU'' \<in> dom (eo_metric_vals out)) = (attr \<noteq> None)"
    if "\<forall>u. env_acc_compute env nc 0 u ''BB-Loc'' = None
            \<and> env_acc_compute env nc 0 u ''BB-IoU'' = None"
    using that b by (cases attr) (simp_all add: dom_def)
  with b show ?thesis
    by blast
qed

theorem eval_model_bb_metrics_witness:
  "(\<exists>out.
      eval_model example_env example_activator example_model (Some example_attributor)
        [example_eval_batch] (1 / 2) 2 (BCEWithLogitsLoss None) None None (Some GROUP_NAMES)
        = Inr out
    \<and> ev_bb_metric (eo_vars out) = [(0, 7), (2, 9)]
    \<and> eo_metric_vals out ''BB-Loc'' = Some (PFloat (1 / 4))
    \<and> eo_metric_vals out ''BB-IoU'' = Some (PFloat (1 / 8)))
   \<and> (\<exists>out.
      eval_model example_env example_activator example_model None
        [example_eval_batch] (1 / 2) 2 (BCEWithLogitsLoss None) None None (Some GROUP_NAMES)
        = Inr out
    \<and> ev_bb_metric (eo_vars out) = []
    \<and> ''BB-Loc'' \<notin> dom (eo_metric_vals out) \<and> ''BB-IoU'' \<notin> dom (eo_metric_vals out))"
proof -
  have "case eval_model example_env example_activator example_model (Some example_attributor)
          [example_eval_batch] (1 / 2) 2 (BCEWithLogitsLoss None) None None (Some GROUP_NAMES)
        of Inl err \<Rightarrow> False | Inr out \<Rightarrow> True"
    by code_simp
  then obtain out where
    out: "eval_model example_env example_activator example_model (Some example_attributor)
        [example_eval_batch] (1 / 2) 2 (BCEWithLogitsLoss None) None None (Some GROUP_NAMES)
        = Inr out"
    by (auto split: sum.splits)
  have "case eval_model example_env example_activator example_model None
          [example_eval_batch] (1 / 2) 2 (BCEWithLogitsLoss None) None None (Some GROUP_NAMES)
        of Inl err \<Rightarrow> False | Inr out \<Rightarrow> True"
    by code_simp
  then obtain out' where
    out': "eval_model example_env example_activator example_model None
        [example_eval_batch] (1 / 2) 2 (BCEWithLogitsLoss None) None None (Some GROUP_NAMES)
        = Inr out'"
    by (auto split: sum.splits)
  have keys: "\<forall>u. env_acc_compute example_env 2 0 u ''BB-Loc'' = None
      \<and> env_acc_compute example_env 2 0 u ''BB-IoU'' = None"
    by (simp add: example_env_def example_metrics_def)
  have atts: "eval_attributions example_env example_activator example_attributor
      (example_model\<lparr>training := False\<rparr>) [example_eval_batch] = [(0, 7), (2, 9)]"
    by (simp add: eval_attributions_def batch_attributions_def image_attributions_def
        where_one_def batch_features_def batch_logits_def example_env_def
        example_eval_batch_def upt_rec)
  from eval_model_bb_metrics [OF out] atts have
    "ev_bb_metric (eo_vars out) = [(0, 7), (2, 9)]
     \<and> eo_metric_vals out ''BB-Loc'' = Some (PFloat (1 / 4))
     \<and> eo_metric_vals out ''BB-IoU'' = Some (PFloat (1 / 8))"
    by (simp add: example_env_def)
  moreover from eval_model_bb_metrics [OF out'] keys have
    "ev_bb_metric (eo_vars out') = []
     \<and> ''BB-Loc'' \<notin> dom (eo_metric_vals out') \<and> ''BB-IoU'' \<notin> dom (eo_metric_vals out')"
    by simp
  ultimately show ?thesis
    using out out' by blast
qed

lemma after_eval_cases:
  assumes "after_eval env a cx e mv st = (st', sig)"
  shows "ms_evals st' = ms_evals st \<and> ms_e st' = ms_e st \<and> ms_model st' = ms_model st
       \<and> (sig = Next \<longrightarrow>
             ms_acc_tracker st' = ms_acc_tracker st @ [(mv, state_dict (ms_model st), e)]
           \<and> ms_saved st' = ms_saved st \<and> ms_pareto_saved st' = ms_pareto_saved st
           \<and> ms_metric_vals st' = ms_metric_vals st)
       \<and> (sig = Return \<longrightarrow>
             ms_acc_tracker st' = ms_acc_tracker st
           \<and> (\<exists>b. fst (env_get_best env (ms_acc_tracker st)) = Some b
                  \<and> py_less b (min_acc a) = Inr True)
           \<and> ms_saved st' =
               ms_saved st @ [(checkpoint_stopped (cx_save_path cx) e, stopped_dict a e mv)])
       \<and> (\<forall>err. sig = Raise err \<longrightarrow> ms_saved st' = ms_saved st)"
  using assms
  by (auto simp: after_eval_def Let_def split: sum.splits bool.splits option.splits if_splits)


lemma eval_epochs_snoc:
  "eval_epochs a (done @ [e]) =
     (if (int e + 1) mod evaluation_frequency a = 0 then eval_epochs a done @ [e]
      else eval_epochs a done)"
  by (simp add: eval_epochs_def)

lemma val_log_snoc:
  "val_log a (done @ [e]) =
     (if (int e + 1) mod evaluation_frequency a = 0
      then val_log a done @ [(''val'', Some e, Some GROUP_NAMES)]
      else val_log a done)"
  by (simp add: val_log_def eval_epochs_snoc)

lemma main_epoch_cases:
  assumes inv: "main_inv a done st"
      and val: "ds_image_set (cx_val_data cx) = ''val''"
      and run: "main_epoch env a cx e st = (st', sig)"
  shows "(sig = Next \<longrightarrow> main_inv a (done @ [e]) st')
       \<and> (sig = Return \<longrightarrow>
             (int e + 1) mod evaluation_frequency a = 0
           \<and> ms_e st' = Some e
           \<and> ms_evals st' = val_log a (done @ [e])
           \<and> ms_acc_tracker st' = ms_acc_tracker st
           \<and> (\<exists>b. fst (env_get_best env (ms_acc_tracker st)) = Some b
                  \<and> py_less b (min_acc a) = Inr True)
           \<and> (\<exists>mv. ms_saved st' =
                  [(checkpoint_stopped (cx_save_path cx) e, stopped_dict a e mv)]))
       \<and> (\<forall>err. sig = Raise err \<longrightarrow>
             ms_saved st' = [] \<and> set (ms_evals st') \<subseteq> set (val_log a (done @ [e])))"
proof (cases "train_epoch env a cx e (ms_model (st\<lparr>ms_e := Some e\<rparr>))
                (ms_optimizer (st\<lparr>ms_e := Some e\<rparr>))")
  case (Inl err)
  with run inv show ?thesis
    by (auto simp: main_epoch_def main_inv_def val_log_snoc Let_def)
next
  case (Inr v)
  define st1 where
    "st1 = st\<lparr>ms_e := Some e, ms_model := ep_model v, ms_optimizer := ep_optimizer v\<rparr>"
  show ?thesis
  proof (cases "average_raises (ep_total_loss v) (cx_num_train_batches cx)")
    case True
    with run inv Inr show ?thesis
      by (auto simp: main_epoch_def main_inv_def val_log_snoc Let_def)
  next
    case no_raise: False
    define st2 where "st2 = st1\<lparr>ms_writer := log_train v e (ms_writer st1)\<rparr>"
    show ?thesis
    proof (cases "evaluation_frequency a = 0")
      case True
      with run inv Inr no_raise show ?thesis
        by (auto simp: main_epoch_def main_inv_def val_log_snoc Let_def)
    next
      case freq: False
      show ?thesis
      proof (cases "(int e + 1) mod evaluation_frequency a = 0")
        case False
        with run inv Inr no_raise freq show ?thesis
          by (auto simp: main_epoch_def main_inv_def val_log_snoc eval_epochs_snoc Let_def)
      next
        case ev: True
        have st2: "ms_saved st2 = [] \<and> ms_pareto_saved st2 = []
            \<and> ms_evals st2 = val_log a done
            \<and> ms_acc_tracker st2 = ms_acc_tracker st \<and> ms_e st2 = Some e"
          using inv by (simp add: st2_def st1_def main_inv_def)
        show ?thesis
        proof (cases "eval_val env a cx (ms_model st2) (ms_writer st2) e")
          case (Inl err)
          with run Inr no_raise freq ev have "st' = st2 \<and> sig = Raise err"
            by (simp add: main_epoch_def Let_def st2_def st1_def)
          with st2 ev show ?thesis
            by (auto simp: val_log_snoc)
        next
          case out: (Inr out)
          from eval_model_returns [OF out [unfolded eval_val_def]] have
            gn: "ev_group_names (eo_vars out) = Some GROUP_NAMES"
            by simp
          define st4 where
            "st4 = st2\<lparr>ms_model := eo_model out, ms_writer := eo_writer out,
                        ms_metric_vals := Some (eo_metric_vals out),
                        ms_evals :=
                          ms_evals st2
                          @ [(ds_image_set (cx_val_data cx), Some e, ev_group_names (eo_vars out))]\<rparr>"
          from run Inr no_raise freq ev out have
            ae: "after_eval env a cx e (eo_metric_vals out) st4 = (st', sig)"
            by (simp add: main_epoch_def Let_def st4_def st2_def st1_def)
          have st4: "ms_saved st4 = [] \<and> ms_pareto_saved st4 = []
              \<and> ms_evals st4 = val_log a (done @ [e])
              \<and> ms_acc_tracker st4 = ms_acc_tracker st \<and> ms_e st4 = Some e
              \<and> ms_metric_vals st4 \<noteq> None"
            using st2 ev val gn by (simp add: st4_def val_log_snoc)
          from after_eval_cases [OF ae] st4 inv ev show ?thesis
            by (cases sig) (auto simp: main_inv_def eval_epochs_snoc)
        qed
      qed
    qed
  qed
qed

lemma run_epochs_inv:
  assumes step: "\<And>pre e s s'. P pre s \<Longrightarrow> body e s = (s', Next) \<Longrightarrow> P (pre @ [e]) s'"
  shows "P pre s0 \<Longrightarrow> run_epochs body es s0 = (s, sig) \<Longrightarrow>
         (sig = Next \<longrightarrow> P (pre @ es) s)
         \<and> (sig \<noteq> Next \<longrightarrow>
              (\<exists>p e q s1. es = p @ e # q \<and> P (pre @ p) s1 \<and> body e s1 = (s, sig)))"
proof (induction es arbitrary: pre s0)
  case Nil
  then show ?case by simp
next
  case (Cons e es)
  obtain s1 sig1 where b: "body e s0 = (s1, sig1)"
    by (cases "body e s0")
  show ?case
  proof (cases "sig1 = Next")
    case True
    with b Cons.prems have rest: "run_epochs body es s1 = (s, sig)"
      by simp
    from step [OF Cons.prems(1)] b True have "P (pre @ [e]) s1"
      by simp
    from Cons.IH [OF this rest] show ?thesis
      by (auto intro: Cons_eq_appendI)
  next
    case False
    with b Cons.prems have "s = s1 \<and> sig = sig1"
      by (cases sig1) auto
    with b False Cons.prems(1) show ?thesis
      by (auto intro!: exI [of _ "[]"])
  qed
qed

lemma upt_split:
  assumes "[0..<n] = p @ e # q"
  shows "p = [0..<e] \<and> e < n"
proof -
  have len: "length p < n"
    using arg_cong [OF assms, of length] by simp
  have "[0..<n] ! length p = e"
    using assms by (metis nth_append_length)
  with len have e: "e = length p"
    by simp
  have "take (length p) [0..<n] = p"
    using assms by simp
  with len have "p = [0..<length p]"
    by simp
  with e len show ?thesis by simp
qed

lemma vars_args_reserved:
  "vars_args a ''model'' = None \<and> vars_args a ''epochs'' = None
   \<and> vars_args a ''BelowThresh'' = None"
  by (simp add: vars_args_def)

lemma stopped_dict_entries:
  "stopped_dict a e mv ''model'' = Some PNone
   \<and> stopped_dict a e mv ''BelowThresh'' = Some (PBool True)
   \<and> stopped_dict a e mv ''epochs'' = Some (PInt (int e + 1))"
  by (simp add: stopped_dict_def Let_def map_add_def vars_args_reserved)

lemma final_dict_entries:
  "final_dict a sd n ''model'' = Some (PStateDict sd)
   \<and> final_dict a sd n ''epochs'' = Some (PInt (int n))"
  by (simp add: final_dict_def map_add_def vars_args_reserved)

lemma main_setup_inv:
  assumes "main_setup env a network layer_idx = Inr (cx, st0)"
  shows "main_inv a [] st0 \<and> cx_save_path cx = main_save_path env a
       \<and> ds_image_set (cx_val_data cx) = ''val'' \<and> ds_image_set (cx_test_data cx) = ''test''"
  using assms
  by (auto simp: main_setup_def main_inv_def val_log_def eval_epochs_def Let_def
      main_val_data_def main_test_data_def split: if_splits sum.splits)

lemma eval_test_returns:
  assumes "eval_test env a cx m = Inr out"
  shows "ev_group_names (eo_vars out) = Some GROUP_NAMES \<and> training (eo_model out)
       \<and> state_dict (eo_model out) = state_dict m"
  using eval_model_returns [OF assms [unfolded eval_test_def]] by simp

lemma main_finish_best_cases:
  assumes "main_finish_best env a cx e fm st = (st', sig)"
      and test: "ds_image_set (cx_test_data cx) = ''test''"
  shows "sig \<noteq> Return
       \<and> ms_pareto_saved st' = ms_pareto_saved st
       \<and> set (ms_evals st') \<subseteq> set (ms_evals st) \<union> {(''test'', None, Some GROUP_NAMES)}
       \<and> (\<forall>err. sig = Raise err \<longrightarrow> ms_saved st' = ms_saved st)
       \<and> (sig = Next \<longrightarrow>
            (\<exists>best_sd best_e vm out.
               fst (snd (env_get_best env (ms_acc_tracker st))) = Some best_sd
             \<and> fst (snd (snd (env_get_best env (ms_acc_tracker st)))) = Some best_e
             \<and> env_update_val_metrics env (snd (snd (snd (env_get_best env (ms_acc_tracker st)))))
                 = Inr vm
             \<and> eval_test env a cx ((ms_model st)\<lparr>state_dict := best_sd\<rparr>) = Inr out
             \<and> ms_saved st' =
                 ms_saved st
                 @ [(checkpoint_final (cx_save_path cx) e, fm),
                    (checkpoint_acc_best (cx_save_path cx),
                     eo_metric_vals out ++ vm ++ final_dict a best_sd (best_e + 1))]))"
  using assms
  by (auto simp: main_finish_best_def Let_def dest: eval_test_returns
      split: prod.splits sum.splits option.splits)

lemma main_finish_cases:
  assumes "main_finish env a cx st = (st', sig)"
      and "ms_saved st = []"
      and test: "ds_image_set (cx_test_data cx) = ''test''"
  shows "sig \<noteq> Return
       \<and> set (ms_evals st') \<subseteq> set (ms_evals st) \<union> {(''test'', None, Some GROUP_NAMES)}
       \<and> (ms_metric_vals st = None \<longrightarrow> sig = Raise UnboundLocalError)
       \<and> (\<forall>err. sig = Raise err \<longrightarrow> ms_saved st' = [])
       \<and> (sig = Next \<longrightarrow>
            (\<exists>e mv vm out best_sd best_e bvm bout.
               ms_e st = Some e \<and> ms_metric_vals st = Some mv
             \<and> env_update_val_metrics env (Some mv) = Inr vm
             \<and> eval_test env a cx (ms_model st) = Inr out
             \<and> fst (snd (env_get_best env (ms_acc_tracker st))) = Some best_sd
             \<and> fst (snd (snd (env_get_best env (ms_acc_tracker st)))) = Some best_e
             \<and> env_update_val_metrics env (snd (snd (snd (env_get_best env (ms_acc_tracker st)))))
                 = Inr bvm
             \<and> eval_test env a cx ((eo_model out)\<lparr>state_dict := best_sd\<rparr>) = Inr bout
             \<and> ms_saved st' =
                 [(checkpoint_final (cx_save_path cx) e,
                   eo_metric_vals out ++ vm
                   ++ final_dict a (state_dict (eo_model out)) (e + 1)),
                  (checkpoint_acc_best (cx_save_path cx),
                   eo_metric_vals bout ++ bvm ++ final_dict a best_sd (best_e + 1))]))"
proof -
  define st1 where
    "st1 = (if pareto a
            then st\<lparr>ms_pareto_saved :=
                      ms_pareto_saved st @ [(cx_save_path cx, ms_pareto_front_tracker st)]\<rparr>
            else st)"
  have st1: "ms_saved st1 = [] \<and> ms_evals st1 = ms_evals st
      \<and> ms_metric_vals st1 = ms_metric_vals st \<and> ms_e st1 = ms_e st
      \<and> ms_model st1 = ms_model st \<and> ms_acc_tracker st1 = ms_acc_tracker st"
    using assms(2) by (simp add: st1_def)
  show ?thesis
  proof (cases "ms_metric_vals st")
    case None
    with assms st1 show ?thesis
      by (auto simp: main_finish_def Let_def st1_def)
  next
    case (Some mv)
    show ?thesis
    proof (cases "env_update_val_metrics env (Some mv)")
      case (Inl err)
      with assms Some st1 show ?thesis
        by (auto simp: main_finish_def Let_def st1_def)
    next
      case vm: (Inr vm)
      show ?thesis
      proof (cases "eval_test env a cx (ms_model st1)")
        case (Inl err)
        with assms Some vm st1 have "st' = st1 \<and> sig = Raise err"
          by (auto simp: main_finish_def Let_def st1_def)
        with st1 Some show ?thesis
          by auto
      next
        case out: (Inr out)
        define st3 where
          "st3 = st1\<lparr>ms_model := eo_model out,
                      ms_evals :=
                        ms_evals st1
                        @ [(ds_image_set (cx_test_data cx), None, ev_group_names (eo_vars out))]\<rparr>"
        show ?thesis
        proof (cases "ms_e st3")
          case None
          with assms Some vm out st1 have "st' = st3 \<and> sig = Raise UnboundLocalError"
            by (auto simp: main_finish_def Let_def st1_def st3_def)
          with st1 Some test eval_test_returns [OF out] show ?thesis
            by (auto simp: st3_def)
        next
          case e: (Some e)
          from assms Some vm out e have
            fb: "main_finish_best env a cx e
                   (eo_metric_vals out ++ vm ++ final_dict a (state_dict (eo_model out)) (e + 1))
                   st3 = (st', sig)"
            by (auto simp: main_finish_def Let_def st1_def st3_def)
          have st3: "ms_saved st3 = [] \<and> ms_model st3 = eo_model out
              \<and> ms_acc_tracker st3 = ms_acc_tracker st
              \<and> ms_evals st3 = ms_evals st @ [(''test'', None, Some GROUP_NAMES)]
              \<and> ms_e st = Some e \<and> eval_test env a cx (ms_model st) = Inr out"
            using st1 e out test eval_test_returns [OF out] by (simp add: st3_def)
          from main_finish_best_cases [OF fb test] st3 Some vm show ?thesis
            by auto
        qed
      qed
    qed
  qed
qed

lemma main_unfold:
  assumes "build_model a = Inr (network, layer_idx)"
      and "main_setup env a network layer_idx = Inr (cx, st0)"
      and "run_epochs (main_epoch env a cx) [0..<nat (total_epochs a)] st0 = (st, sig)"
  shows "main env a =
           (if sig = Next
            then \<lparr>run_signal = snd (main_finish env a cx st),
                  run_state = Some (fst (main_finish env a cx st))\<rparr>
            else \<lparr>run_signal = sig, run_state = Some st\<rparr>)"
  using assms
  by (cases sig) (simp_all add: main_def split: prod.splits)

lemma main_no_loop:
  assumes "run_state (main env a) = Some st"
  shows "\<exists>network layer_idx cx st0 st1 sig.
           build_model a = Inr (network, layer_idx)
         \<and> main_setup env a network layer_idx = Inr (cx, st0)
         \<and> run_epochs (main_epoch env a cx) [0..<nat (total_epochs a)] st0 = (st1, sig)"
proof (cases "build_model a")
  case (Inl err)
  with assms show ?thesis
    by (simp add: main_def)
next
  case (Inr x)
  obtain network layer_idx where x: "x = (network, layer_idx)"
    by (cases x)
  show ?thesis
  proof (cases "main_setup env a network layer_idx")
    case (Inl err)
    with assms Inr x show ?thesis
      by (simp add: main_def)
  next
    case s: (Inr y)
    obtain cx st0 where y: "y = (cx, st0)"
      by (cases y)
    obtain st1 sig where
      "run_epochs (main_epoch env a cx) [0..<nat (total_epochs a)] st0 = (st1, sig)"
      by (cases "run_epochs (main_epoch env a cx) [0..<nat (total_epochs a)] st0")
    with Inr x s y show ?thesis
      by blast
  qed
qed

lemma main_loop_cases:
  assumes su: "main_setup env a network layer_idx = Inr (cx, st0)"
      and loop: "run_epochs (main_epoch env a cx) [0..<n] st0 = (st, sig)"
  shows "(sig = Next \<longrightarrow> main_inv a [0..<n] st)
       \<and> (sig \<noteq> Next \<longrightarrow>
            (\<exists>e s1. e < n \<and> main_inv a [0..<e] s1 \<and> main_epoch env a cx e s1 = (st, sig)))"
proof -
  note i = main_setup_inv [OF su]
  have inv0: "main_inv a ([] @ []) st0"
    using i by simp
  have step: "\<And>pre e s s'. main_inv a pre s \<Longrightarrow> main_epoch env a cx e s = (s', Next) \<Longrightarrow>
      main_inv a (pre @ [e]) s'"
    using main_epoch_cases i by blast
  from run_epochs_inv [of "main_inv a" "main_epoch env a cx" "[]" st0 "[0..<n]" st sig,
      OF step] inv0 loop
  have r: "(sig = Next \<longrightarrow> main_inv a [0..<n] st)
      \<and> (sig \<noteq> Next \<longrightarrow>
           (\<exists>p e q s1. [0..<n] = p @ e # q \<and> main_inv a p s1
              \<and> main_epoch env a cx e s1 = (st, sig)))"
    by simp
  show ?thesis
  proof (cases "sig = Next")
    case True
    with r show ?thesis by simp
  next
    case False
    with r obtain p e q s1 where
      "[0..<n] = p @ e # q" "main_inv a p s1" "main_epoch env a cx e s1 = (st, sig)"
      by blast
    with upt_split [of n p e q] False show ?thesis
      by auto
  qed
qed

lemma val_log_entries:
  "x \<in> set (val_log a [0..<n]) \<Longrightarrow>
   \<exists>e. x = (''val'', Some e, Some GROUP_NAMES) \<and> e < n
        \<and> (int e + 1) mod evaluation_frequency a = 0"
  by (auto simp: val_log_def eval_epochs_def)

text \<open>Every call of \<^verbatim>\<open>eval_model\<close> that \<^verbatim>\<open>main\<close> makes and that returns, in any run.\<close>

lemma main_evals:
  assumes "run_state (main env a) = Some st"
      and "x \<in> set (ms_evals st)"
  shows "x = (''test'', None, Some GROUP_NAMES)
       \<or> (\<exists>e. x = (''val'', Some e, Some GROUP_NAMES) \<and> e < nat (total_epochs a)
              \<and> (int e + 1) mod evaluation_frequency a = 0)"
proof -
  from main_no_loop [OF assms(1)] obtain network layer_idx cx st0 st1 sig where
    b: "build_model a = Inr (network, layer_idx)"
    and s: "main_setup env a network layer_idx = Inr (cx, st0)"
    and l: "run_epochs (main_epoch env a cx) [0..<nat (total_epochs a)] st0 = (st1, sig)"
    by blast
  note m = main_unfold [OF b s l]
  note c = main_loop_cases [OF s l]
  note i = main_setup_inv [OF s]
  show ?thesis
  proof (cases sig)
    case Next
    with c have inv: "main_inv a [0..<nat (total_epochs a)] st1"
      by simp
    then have saved: "ms_saved st1 = []"
      by (simp add: main_inv_def)
    obtain st' sig' where f: "main_finish env a cx st1 = (st', sig')"
      by (cases "main_finish env a cx st1")
    with m Next assms(1) have "st = st'"
      by simp
    with main_finish_cases [OF f saved] i inv assms(2) have
      "x = (''test'', None, Some GROUP_NAMES) \<or> x \<in> set (val_log a [0..<nat (total_epochs a)])"
      by (auto simp: main_inv_def)
    then show ?thesis
      using val_log_entries by blast
  next
    case Return
    with c obtain e s1 where e: "e < nat (total_epochs a)" "main_inv a [0..<e] s1"
      "main_epoch env a cx e s1 = (st1, Return)"
      by auto
    from m Return assms(1) have "st = st1"
      by simp
    with main_epoch_cases [OF e(2) _ e(3)] i assms(2) have
      "x \<in> set (val_log a [0..<Suc e])"
      by simp
    with val_log_entries [of x a "Suc e"] e(1) show ?thesis
      by auto
  next
    case (Raise err)
    with c obtain e s1 where e: "e < nat (total_epochs a)" "main_inv a [0..<e] s1"
      "main_epoch env a cx e s1 = (st1, Raise err)"
      by auto
    from m Raise assms(1) have "st = st1"
      by simp
    with main_epoch_cases [OF e(2) _ e(3)] i assms(2) have
      "x \<in> set (val_log a [0..<Suc e])"
      by auto
    with val_log_entries [of x a "Suc e"] e(1) show ?thesis
      by auto
  qed
qed

lemma main_state_exists:
  assumes "run_signal (main env a) = Return \<or> run_signal (main env a) = Next"
  shows "\<exists>st. run_state (main env a) = Some st"
proof (cases "build_model a")
  case (Inl err)
  with assms show ?thesis
    by (simp add: main_def)
next
  case (Inr x)
  obtain network layer_idx where x: "x = (network, layer_idx)"
    by (cases x)
  show ?thesis
  proof (cases "main_setup env a network layer_idx")
    case (Inl err)
    with assms Inr x show ?thesis
      by (simp add: main_def)
  next
    case s: (Inr y)
    obtain cx st0 where y: "y = (cx, st0)"
      by (cases y)
    obtain st1 sig where
      "run_epochs (main_epoch env a cx) [0..<nat (total_epochs a)] st0 = (st1, sig)"
      by (cases "run_epochs (main_epoch env a cx) [0..<nat (total_epochs a)] st0")
    from main_unfold [OF _ _ this, of network layer_idx] Inr x s y show ?thesis
      by simp
  qed
qed

lemma eval_epochs_below: "u \<in> set (eval_epochs a [0..<e]) \<Longrightarrow> u < e"
  by (simp add: eval_epochs_def)

lemma main_Return:
  assumes "run_signal (main env a) = Return"
  shows "\<exists>st e b mv.
           run_state (main env a) = Some st \<and> ms_e st = Some e
         \<and> e < nat (total_epochs a) \<and> (int e + 1) mod evaluation_frequency a = 0
         \<and> ms_evals st = val_log a [0..<Suc e]
         \<and> map (\<lambda>u. snd (snd u)) (ms_acc_tracker st) = eval_epochs a [0..<e]
         \<and> fst (env_get_best env (ms_acc_tracker st)) = Some b
         \<and> py_less b (min_acc a) = Inr True
         \<and> ms_saved st =
             [(checkpoint_stopped (main_save_path env a) e, stopped_dict a e mv)]"
proof -
  from main_state_exists [of env a] assms obtain st where
    st: "run_state (main env a) = Some st"
    by blast
  from main_no_loop [OF st] obtain network layer_idx cx st0 st1 sig where
    b: "build_model a = Inr (network, layer_idx)"
    and s: "main_setup env a network layer_idx = Inr (cx, st0)"
    and l: "run_epochs (main_epoch env a cx) [0..<nat (total_epochs a)] st0 = (st1, sig)"
    by blast
  note m = main_unfold [OF b s l]
  note i = main_setup_inv [OF s]
  have sig: "sig = Return"
  proof (cases "sig = Next")
    case True
    obtain st' sig' where f: "main_finish env a cx st1 = (st', sig')"
      by (cases "main_finish env a cx st1")
    from main_loop_cases [OF s l] True have "ms_saved st1 = []"
      by (simp add: main_inv_def)
    from main_finish_cases [OF f this] i have "sig' \<noteq> Return"
      by simp
    with m True f assms show ?thesis
      by simp
  next
    case False
    with m assms show ?thesis by simp
  qed
  with m st have eq: "st = st1"
    by simp
  from main_loop_cases [OF s l] sig obtain e s1 where
    e: "e < nat (total_epochs a)" "main_inv a [0..<e] s1"
    "main_epoch env a cx e s1 = (st1, Return)"
    by auto
  from main_epoch_cases [OF e(2) _ e(3)] i have
    r: "(int e + 1) mod evaluation_frequency a = 0" "ms_e st1 = Some e"
       "ms_evals st1 = val_log a ([0..<e] @ [e])"
       "ms_acc_tracker st1 = ms_acc_tracker s1"
       "\<exists>b. fst (env_get_best env (ms_acc_tracker s1)) = Some b
            \<and> py_less b (min_acc a) = Inr True"
       "\<exists>mv. ms_saved st1 = [(checkpoint_stopped (cx_save_path cx) e, stopped_dict a e mv)]"
    by simp_all
  from r(5) obtain b where
    b: "fst (env_get_best env (ms_acc_tracker s1)) = Some b" "py_less b (min_acc a) = Inr True"
    by blast
  from r(6) obtain mv where
    mv: "ms_saved st1 = [(checkpoint_stopped (cx_save_path cx) e, stopped_dict a e mv)]"
    by blast
  from e(2) have tr: "map (\<lambda>u. snd (snd u)) (ms_acc_tracker s1) = eval_epochs a [0..<e]"
    by (simp add: main_inv_def)
  have "run_state (main env a) = Some st1 \<and> ms_e st1 = Some e
      \<and> e < nat (total_epochs a) \<and> (int e + 1) mod evaluation_frequency a = 0
      \<and> ms_evals st1 = val_log a [0..<Suc e]
      \<and> map (\<lambda>u. snd (snd u)) (ms_acc_tracker st1) = eval_epochs a [0..<e]
      \<and> fst (env_get_best env (ms_acc_tracker st1)) = Some b
      \<and> py_less b (min_acc a) = Inr True
      \<and> ms_saved st1 = [(checkpoint_stopped (main_save_path env a) e, stopped_dict a e mv)]"
    using st eq e(1) r(1-4) b mv tr i by simp
  then show ?thesis
    by (intro exI)
qed

lemma main_finish_NextE:
  assumes "main_finish env a cx st = (st', Next)"
      and "ms_saved st = []"
      and "ds_image_set (cx_test_data cx) = ''test''"
  obtains e mv vm out best_sd best_e bvm bout where
    "ms_e st = Some e" "ms_metric_vals st = Some mv"
    "env_update_val_metrics env (Some mv) = Inr vm"
    "eval_test env a cx (ms_model st) = Inr out"
    "fst (snd (env_get_best env (ms_acc_tracker st))) = Some best_sd"
    "fst (snd (snd (env_get_best env (ms_acc_tracker st)))) = Some best_e"
    "env_update_val_metrics env (snd (snd (snd (env_get_best env (ms_acc_tracker st))))) = Inr bvm"
    "eval_test env a cx ((eo_model out)\<lparr>state_dict := best_sd\<rparr>) = Inr bout"
    "ms_saved st' =
       [(checkpoint_final (cx_save_path cx) e,
         eo_metric_vals out ++ vm ++ final_dict a (state_dict (eo_model out)) (e + 1)),
        (checkpoint_acc_best (cx_save_path cx),
         eo_metric_vals bout ++ bvm ++ final_dict a best_sd (best_e + 1))]"
proof -
  from main_finish_cases [OF assms] have
    "\<exists>e mv vm out best_sd best_e bvm bout.
       ms_e st = Some e \<and> ms_metric_vals st = Some mv
     \<and> env_update_val_metrics env (Some mv) = Inr vm
     \<and> eval_test env a cx (ms_model st) = Inr out
     \<and> fst (snd (env_get_best env (ms_acc_tracker st))) = Some best_sd
     \<and> fst (snd (snd (env_get_best env (ms_acc_tracker st)))) = Some best_e
     \<and> env_update_val_metrics env (snd (snd (snd (env_get_best env (ms_acc_tracker st)))))
         = Inr bvm
     \<and> eval_test env a cx ((eo_model out)\<lparr>state_dict := best_sd\<rparr>) = Inr bout
     \<and> ms_saved st' =
         [(checkpoint_final (cx_save_path cx) e,
           eo_metric_vals out ++ vm ++ final_dict a (state_dict (eo_model out)) (e + 1)),
          (checkpoint_acc_best (cx_save_path cx),
           eo_metric_vals bout ++ bvm ++ final_dict a best_sd (best_e + 1))]"
    by simp
  then show thesis
    by (elim exE conjE) (rule that)
qed

text \<open>
  When \<^verbatim>\<open>main\<close> runs to its last line, some epoch has evaluated, and exactly two files
  have been written: the final checkpoint, named after the number of epochs, and the
  best-accuracy checkpoint, each with the state dict and epoch count of its model.
\<close>

lemma main_Next:
  assumes "run_signal (main env a) = Next"
  shows "\<exists>st e final_metrics acc_best_metrics final_sd best_sd best_e.
           run_state (main env a) = Some st
         \<and> int e + 1 = total_epochs a
         \<and> ms_saved st =
             [(checkpoint_final (main_save_path env a) e, final_metrics),
              (checkpoint_acc_best (main_save_path env a), acc_best_metrics)]
         \<and> final_metrics ''model'' = Some (PStateDict final_sd)
         \<and> final_metrics ''epochs'' = Some (PInt (total_epochs a))
         \<and> acc_best_metrics ''model'' = Some (PStateDict best_sd)
         \<and> acc_best_metrics ''epochs'' = Some (PInt (int best_e + 1))
         \<and> eval_epochs a [0..<nat (total_epochs a)] \<noteq> []"
proof -
  from main_state_exists [of env a] assms obtain st where
    st: "run_state (main env a) = Some st"
    by blast
  from main_no_loop [OF st] obtain network layer_idx cx st0 st1 sig where
    b: "build_model a = Inr (network, layer_idx)"
    and s: "main_setup env a network layer_idx = Inr (cx, st0)"
    and l: "run_epochs (main_epoch env a cx) [0..<nat (total_epochs a)] st0 = (st1, sig)"
    by blast
  note m = main_unfold [OF b s l]
  note i = main_setup_inv [OF s]
  obtain st' sig' where f: "main_finish env a cx st1 = (st', sig')"
    by (cases "main_finish env a cx st1")
  have sig: "sig = Next"
  proof (rule ccontr)
    assume n: "sig \<noteq> Next"
    with m assms have "sig = Next" by simp
    with n show False by simp
  qed
  with main_loop_cases [OF s l] have inv: "main_inv a [0..<nat (total_epochs a)] st1"
    by simp
  then have saved: "ms_saved st1 = []"
    by (simp add: main_inv_def)
  from m sig f assms st have fin: "sig' = Next" "st = st'"
    by simp_all
  from f fin(1) have f': "main_finish env a cx st1 = (st', Next)"
    by simp
  have test: "ds_image_set (cx_test_data cx) = ''test''"
    using i by simp
  show ?thesis
  proof (rule main_finish_NextE [OF f' saved test])
  fix e mv vm out best_sd best_e bvm bout
  assume r: "ms_e st1 = Some e" "ms_metric_vals st1 = Some mv"
    and "env_update_val_metrics env (Some mv) = Inr vm"
    and "eval_test env a cx (ms_model st1) = Inr out"
    and "fst (snd (env_get_best env (ms_acc_tracker st1))) = Some best_sd"
    and "fst (snd (snd (env_get_best env (ms_acc_tracker st1)))) = Some best_e"
    and "env_update_val_metrics env (snd (snd (snd (env_get_best env (ms_acc_tracker st1)))))
           = Inr bvm"
    and "eval_test env a cx ((eo_model out)\<lparr>state_dict := best_sd\<rparr>) = Inr bout"
    and r5: "ms_saved st' =
       [(checkpoint_final (cx_save_path cx) e,
         eo_metric_vals out ++ vm ++ final_dict a (state_dict (eo_model out)) (e + 1)),
        (checkpoint_acc_best (cx_save_path cx),
         eo_metric_vals bout ++ bvm ++ final_dict a best_sd (best_e + 1))]"
  from inv r(1) have e: "nat (total_epochs a) \<noteq> 0 \<and> e = nat (total_epochs a) - 1"
    by (auto simp: main_inv_def split: if_splits)
  from inv r(2) have ev: "eval_epochs a [0..<nat (total_epochs a)] \<noteq> []"
    by (auto simp: main_inv_def)
  from e have e1: "int e + 1 = total_epochs a"
    by auto
  then have e2: "int (e + 1) = total_epochs a"
    by simp
  define fm where
    "fm = eo_metric_vals out ++ vm ++ final_dict a (state_dict (eo_model out)) (e + 1)"
  define bm where
    "bm = eo_metric_vals bout ++ bvm ++ final_dict a best_sd (best_e + 1)"
  have fm: "fm ''model'' = Some (PStateDict (state_dict (eo_model out)))
      \<and> fm ''epochs'' = Some (PInt (total_epochs a))"
    using final_dict_entries [of a "state_dict (eo_model out)" "e + 1"] e2
    by (simp add: fm_def)
  have bm: "bm ''model'' = Some (PStateDict best_sd)
      \<and> bm ''epochs'' = Some (PInt (int best_e + 1))"
    using final_dict_entries [of a best_sd "best_e + 1"]
    by (simp add: bm_def)
  have sv: "ms_saved st =
      [(checkpoint_final (main_save_path env a) e, fm),
       (checkpoint_acc_best (main_save_path env a), bm)]"
    using fin(2) r5 i by (simp add: fm_def bm_def)
  have "run_state (main env a) = Some st
     \<and> int e + 1 = total_epochs a
     \<and> ms_saved st =
         [(checkpoint_final (main_save_path env a) e, fm),
          (checkpoint_acc_best (main_save_path env a), bm)]
     \<and> fm ''model'' = Some (PStateDict (state_dict (eo_model out)))
     \<and> fm ''epochs'' = Some (PInt (total_epochs a))
     \<and> bm ''model'' = Some (PStateDict best_sd)
     \<and> bm ''epochs'' = Some (PInt (int best_e + 1))
     \<and> eval_epochs a [0..<nat (total_epochs a)] \<noteq> []"
    using st e1 sv fm bm ev by simp
  then show ?thesis
    by (rule_tac x = st in exI, rule_tac x = e in exI, rule_tac x = fm in exI,
        rule_tac x = bm in exI, rule_tac x = "state_dict (eo_model out)" in exI,
        rule_tac x = best_sd in exI, rule_tac x = best_e in exI)
  qed
qed

lemma main_Next_evaluated:
  assumes "run_signal (main env a) = Next"
  shows "eval_epochs a [0..<nat (total_epochs a)] \<noteq> []"
  using main_Next [OF assms] by (elim exE conjE)

lemma main_Return_evaluated:
  assumes "run_signal (main env a) = Return"
  shows "eval_epochs a [0..<nat (total_epochs a)] \<noteq> []"
proof -
  from main_Return [OF assms] have
    "\<exists>e. e < nat (total_epochs a) \<and> (int e + 1) mod evaluation_frequency a = 0"
    by (elim exE conjE) (rule exI, rule conjI)
  then obtain e where "e < nat (total_epochs a)" "(int e + 1) mod evaluation_frequency a = 0"
    by (elim exE conjE)
  then have "e \<in> set (eval_epochs a [0..<nat (total_epochs a)])"
    by (simp add: eval_epochs_def)
  then show ?thesis
    by (cases "eval_epochs a [0..<nat (total_epochs a)]") simp_all
qed

lemma main_no_evaluation:
  assumes "eval_epochs a [0..<nat (total_epochs a)] = []"
  shows "run_signal (main env a) \<noteq> Next \<and> run_signal (main env a) \<noteq> Return"
  using assms main_Next_evaluated [of env a] main_Return_evaluated [of env a]
  by (cases "run_signal (main env a)") simp_all

text \<open>
  Claim C8. \<^verbatim>\<open>main\<close> evaluates on the validation set only in epochs \<open>e\<close> with \<open>e + 1\<close> a
  multiple of \<^verbatim>\<open>--evaluation_frequency\<close>. When it stops early, in epoch \<open>e\<close>, the accuracy
  tracker holds the updates of the evaluations before \<open>e\<close> and no other, its best value,
  read before any update with the current metrics, is below \<^verbatim>\<open>--min_acc\<close>, and the only
  file written is \<^verbatim>\<open>model_checkpoint_stopped_{e+1}.pt\<close> in the checkpoint directory, a
  dictionary with \<^verbatim>\<open>"model"\<close> set to \<^verbatim>\<open>None\<close> and \<^verbatim>\<open>"BelowThresh"\<close> set to \<^verbatim>\<open>True\<close>; neither
  the final nor the best-accuracy checkpoint is written. With a tracker that has no best
  value before its first update, an evaluation has taken place before epoch \<open>e\<close>: training
  never stops at the first evaluation.
\<close>

theorem main_early_stop:
  "(\<forall>st x. run_state (main env a) = Some st \<and> x \<in> set (ms_evals st) \<and> fst x = ''val'' \<longrightarrow>
       (\<exists>e. fst (snd x) = Some e \<and> e < nat (total_epochs a)
            \<and> (int e + 1) mod evaluation_frequency a = 0))
   \<and> (run_signal (main env a) = Return \<longrightarrow>
       (\<exists>st e b mv.
          run_state (main env a) = Some st \<and> ms_e st = Some e
        \<and> e < nat (total_epochs a) \<and> (int e + 1) mod evaluation_frequency a = 0
        \<and> map (\<lambda>u. snd (snd u)) (ms_acc_tracker st) = eval_epochs a [0..<e]
        \<and> fst (env_get_best env (ms_acc_tracker st)) = Some b
        \<and> py_less b (min_acc a) = Inr True
        \<and> ms_saved st =
            [(os_path_join (main_save_path env a)
                [''model_checkpoint_stopped_'' @ str_nat (e + 1) @ ''.pt''],
              stopped_dict a e mv)]
        \<and> stopped_dict a e mv ''model'' = Some PNone
        \<and> stopped_dict a e mv ''BelowThresh'' = Some (PBool True)
        \<and> (fst (env_get_best env []) = None \<longrightarrow> eval_epochs a [0..<e] \<noteq> [])))"
proof -
  have evals: "\<exists>e. fst (snd x) = Some e \<and> e < nat (total_epochs a)
                  \<and> (int e + 1) mod evaluation_frequency a = 0"
    if "run_state (main env a) = Some st" "x \<in> set (ms_evals st)" "fst x = ''val''"
    for st x
    using main_evals [OF that(1) that(2)] that(3) by auto
  have stop: "\<exists>st e b mv.
          run_state (main env a) = Some st \<and> ms_e st = Some e
        \<and> e < nat (total_epochs a) \<and> (int e + 1) mod evaluation_frequency a = 0
        \<and> map (\<lambda>u. snd (snd u)) (ms_acc_tracker st) = eval_epochs a [0..<e]
        \<and> fst (env_get_best env (ms_acc_tracker st)) = Some b
        \<and> py_less b (min_acc a) = Inr True
        \<and> ms_saved st =
            [(os_path_join (main_save_path env a)
                [''model_checkpoint_stopped_'' @ str_nat (e + 1) @ ''.pt''],
              stopped_dict a e mv)]
        \<and> stopped_dict a e mv ''model'' = Some PNone
        \<and> stopped_dict a e mv ''BelowThresh'' = Some (PBool True)
        \<and> (fst (env_get_best env []) = None \<longrightarrow> eval_epochs a [0..<e] \<noteq> [])"
    if ret: "run_signal (main env a) = Return"
  proof -
    from main_Return [OF ret] show ?thesis
    proof (elim exE conjE)
      fix st e b mv
      assume f: "run_state (main env a) = Some st" "ms_e st = Some e"
        "e < nat (total_epochs a)" "(int e + 1) mod evaluation_frequency a = 0"
        "ms_evals st = val_log a [0..<Suc e]"
        "map (\<lambda>u. snd (snd u)) (ms_acc_tracker st) = eval_epochs a [0..<e]"
        "fst (env_get_best env (ms_acc_tracker st)) = Some b"
        "py_less b (min_acc a) = Inr True"
        "ms_saved st = [(checkpoint_stopped (main_save_path env a) e, stopped_dict a e mv)]"
      have first: "eval_epochs a [0..<e] \<noteq> []" if "fst (env_get_best env []) = None"
      proof
        assume "eval_epochs a [0..<e] = []"
        with f(6) have "ms_acc_tracker st = []"
          by simp
        with f(7) that show False
          by simp
      qed
      have "run_state (main env a) = Some st \<and> ms_e st = Some e
        \<and> e < nat (total_epochs a) \<and> (int e + 1) mod evaluation_frequency a = 0
        \<and> map (\<lambda>u. snd (snd u)) (ms_acc_tracker st) = eval_epochs a [0..<e]
        \<and> fst (env_get_best env (ms_acc_tracker st)) = Some b
        \<and> py_less b (min_acc a) = Inr True
        \<and> ms_saved st =
            [(os_path_join (main_save_path env a)
                [''model_checkpoint_stopped_'' @ str_nat (e + 1) @ ''.pt''],
              stopped_dict a e mv)]
        \<and> stopped_dict a e mv ''model'' = Some PNone
        \<and> stopped_dict a e mv ''BelowThresh'' = Some (PBool True)
        \<and> (fst (env_get_best env []) = None \<longrightarrow> eval_epochs a [0..<e] \<noteq> [])"
        using f(1-4) f(6-9) first stopped_dict_entries [of a e mv]
        by (simp add: checkpoint_stopped_def)
      then show ?thesis
        by (rule_tac x = st in exI, rule_tac x = e in exI, rule_tac x = b in exI,
            rule_tac x = mv in exI)
    qed
  qed
  from evals stop show ?thesis
    by (intro conjI allI impI) (elim conjE, assumption+)
qed

theorem main_early_stop_witness:
  "run_signal (main example_env (example_args\<lparr>min_acc := 9 / 10, total_epochs := 5\<rparr>)) = Return
   \<and> (\<exists>st d.
        run_state (main example_env (example_args\<lparr>min_acc := 9 / 10, total_epochs := 5\<rparr>))
          = Some st
      \<and> ms_e st = Some 1 \<and> length (ms_acc_tracker st) = 1
      \<and> ms_saved st =
          [(''checkpoints/Waterbirds-100/birds/bcos_finetunedobjloc_attrBCos_loclossEnergy_origNone_resnet50_lrx_sllx_layerInput/model_checkpoint_stopped_2.pt'', d)]
      \<and> d ''model'' = Some PNone \<and> d ''BelowThresh'' = Some (PBool True))"
proof -
  define a where "a = example_args\<lparr>min_acc := 9 / 10, total_epochs := 5\<rparr>"
  have ret: "run_signal (main example_env a) = Return"
    unfolding a_def by code_simp
  have e1: "map_option ms_e (run_state (main example_env a)) = Some (Some 1)"
    unfolding a_def by code_simp
  have path: "os_path_join (main_save_path example_env a)
      [''model_checkpoint_stopped_'' @ str_nat (1 + 1) @ ''.pt''] =
      ''checkpoints/Waterbirds-100/birds/bcos_finetunedobjloc_attrBCos_loclossEnergy_origNone_resnet50_lrx_sllx_layerInput/model_checkpoint_stopped_2.pt''"
    unfolding a_def by code_simp
  have ep: "eval_epochs a [0..<1] = [0]"
    unfolding a_def by code_simp
  from main_early_stop [of example_env a] ret have
    "\<exists>st e b mv.
          run_state (main example_env a) = Some st \<and> ms_e st = Some e
        \<and> e < nat (total_epochs a) \<and> (int e + 1) mod evaluation_frequency a = 0
        \<and> map (\<lambda>u. snd (snd u)) (ms_acc_tracker st) = eval_epochs a [0..<e]
        \<and> fst (env_get_best example_env (ms_acc_tracker st)) = Some b
        \<and> py_less b (min_acc a) = Inr True
        \<and> ms_saved st =
            [(os_path_join (main_save_path example_env a)
                [''model_checkpoint_stopped_'' @ str_nat (e + 1) @ ''.pt''],
              stopped_dict a e mv)]
        \<and> stopped_dict a e mv ''model'' = Some PNone
        \<and> stopped_dict a e mv ''BelowThresh'' = Some (PBool True)
        \<and> (fst (env_get_best example_env []) = None \<longrightarrow> eval_epochs a [0..<e] \<noteq> [])"
    by simp
  then have
    "\<exists>st d. run_state (main example_env a) = Some st
      \<and> ms_e st = Some 1 \<and> length (ms_acc_tracker st) = 1
      \<and> ms_saved st =
          [(''checkpoints/Waterbirds-100/birds/bcos_finetunedobjloc_attrBCos_loclossEnergy_origNone_resnet50_lrx_sllx_layerInput/model_checkpoint_stopped_2.pt'', d)]
      \<and> d ''model'' = Some PNone \<and> d ''BelowThresh'' = Some (PBool True)"
  proof (elim exE conjE)
    fix st e b mv
    assume f: "run_state (main example_env a) = Some st" "ms_e st = Some e"
      "map (\<lambda>u. snd (snd u)) (ms_acc_tracker st) = eval_epochs a [0..<e]"
      "ms_saved st =
            [(os_path_join (main_save_path example_env a)
                [''model_checkpoint_stopped_'' @ str_nat (e + 1) @ ''.pt''],
              stopped_dict a e mv)]"
      "stopped_dict a e mv ''model'' = Some PNone"
      "stopped_dict a e mv ''BelowThresh'' = Some (PBool True)"
    from e1 f(1,2) have e: "e = 1"
      by simp
    from f(3) e ep have "length (map (\<lambda>u. snd (snd u)) (ms_acc_tracker st)) = 1"
      by simp
    then have len: "length (ms_acc_tracker st) = 1"
      by simp
    have "run_state (main example_env a) = Some st
      \<and> ms_e st = Some 1 \<and> length (ms_acc_tracker st) = 1
      \<and> ms_saved st =
          [(''checkpoints/Waterbirds-100/birds/bcos_finetunedobjloc_attrBCos_loclossEnergy_origNone_resnet50_lrx_sllx_layerInput/model_checkpoint_stopped_2.pt'',
            stopped_dict a 1 mv)]
      \<and> stopped_dict a 1 mv ''model'' = Some PNone
      \<and> stopped_dict a 1 mv ''BelowThresh'' = Some (PBool True)"
      using f e len path by simp
    then show ?thesis
      by (rule_tac x = st in exI, rule_tac x = "stopped_dict a 1 mv" in exI)
  qed
  with ret show ?thesis
    unfolding a_def by simp
qed

text \<open>
  Claim C6 says that a training loop that completes all its epochs without an early stop
  is followed by exactly two checkpoints. The run with \<^verbatim>\<open>--total_epochs 1
  --evaluation_frequency 2\<close> completes its one epoch (the state dict has taken its one
  update), never evaluates, and then raises \<^verbatim>\<open>UnboundLocalError\<close> at
  \<^verbatim>\<open>final_metric_vals = metric_vals\<close>: no checkpoint is written.
\<close>

theorem main_without_evaluation_unbound:
  "run_signal (main example_env (example_args\<lparr>total_epochs := 1, evaluation_frequency := 2\<rparr>))
     = Raise UnboundLocalError
   \<and> map_option (\<lambda>st. map fst (ms_saved st))
        (run_state (main example_env
           (example_args\<lparr>total_epochs := 1, evaluation_frequency := 2\<rparr>))) = Some []
   \<and> map_option (\<lambda>st. state_dict (ms_model st))
        (run_state (main example_env
           (example_args\<lparr>total_epochs := 1, evaluation_frequency := 2\<rparr>))) = Some 1"
  by code_simp

text \<open>
  Claim C2. A returning call of \<^verbatim>\<open>eval_model\<close> has built its grouped accuracy metric over
  the group names it was given and updated it once per batch, with the logits, the labels
  and the groups; every call \<^verbatim>\<open>main\<close> makes is given the four names \<^verbatim>\<open>Landbird_on_Land\<close>,
  \<^verbatim>\<open>Landbird_on_Water\<close>, \<^verbatim>\<open>Waterbird_on_Land\<close>, \<^verbatim>\<open>Waterbird_on_Water\<close>. The returned
  dictionary carries under \<^verbatim>\<open>"Accuracy"\<close> what the accuracy metric computed from one update
  per batch (an entry that is there whenever a writer is passed), and under
  \<^verbatim>\<open>"Average-Loss"\<close> the sum of the batch losses divided by \<^verbatim>\<open>num_batches\<close>.
\<close>

theorem eval_model_groups_and_accuracy:
  "(\<forall>out. eval_model env act model attr loader nb nc loss_fn writer epoch gn = Inr out \<longrightarrow>
       ev_group_names (eo_vars out) = gn
     \<and> ev_grouped_accuracy (eo_vars out) =
         map (\<lambda>d. (batch_logits env act (model\<lparr>training := False\<rparr>) d, batch_y d,
                    batch_groups d)) loader
     \<and> ev_acc_metric (eo_vars out) =
         map (\<lambda>d. (batch_logits env act (model\<lparr>training := False\<rparr>) d, batch_y d)) loader
     \<and> eo_metric_vals out ''Accuracy'' =
         env_acc_compute env nc 0 (ev_acc_metric (eo_vars out)) ''Accuracy''
     \<and> (writer \<noteq> None \<longrightarrow> ''Accuracy'' \<in> dom (eo_metric_vals out))
     \<and> eo_metric_vals out ''Average-Loss'' =
         Some (PFloat
           (sum_list
              (map (\<lambda>d. env_loss env loss_fn
                          (batch_logits env act (model\<lparr>training := False\<rparr>) d) (batch_y d))
                 loader) / nb)))
   \<and> (\<forall>st x. run_state (main env a) = Some st \<and> x \<in> set (ms_evals st) \<longrightarrow>
        snd (snd x) = Some GROUP_NAMES)
   \<and> GROUP_NAMES = [''Landbird_on_Land'', ''Landbird_on_Water'',
                     ''Waterbird_on_Land'', ''Waterbird_on_Water'']
   \<and> length GROUP_NAMES = 4 \<and> distinct GROUP_NAMES"
proof -
  have w: "''Accuracy'' \<in> dom (eo_metric_vals out)"
    if "eval_model env act model attr loader nb nc loss_fn writer epoch gn = Inr out"
      "writer \<noteq> None" for out
  proof -
    from that(2) obtain sw where "writer = Some sw"
      by (cases writer) simp_all
    with that(1) show ?thesis
      using eval_model_writer_accuracy by blast
  qed
  have g: "snd (snd x) = Some GROUP_NAMES"
    if "run_state (main env a) = Some st" "x \<in> set (ms_evals st)" for st x
    using main_evals [OF that] by auto
  have n: "GROUP_NAMES = [''Landbird_on_Land'', ''Landbird_on_Water'',
                          ''Waterbird_on_Land'', ''Waterbird_on_Water'']
      \<and> length GROUP_NAMES = 4 \<and> distinct GROUP_NAMES"
    by (simp add: GROUP_NAMES_def)
  have r: "ev_group_names (eo_vars out) = gn
     \<and> ev_grouped_accuracy (eo_vars out) =
         map (\<lambda>d. (batch_logits env act (model\<lparr>training := False\<rparr>) d, batch_y d,
                    batch_groups d)) loader
     \<and> ev_acc_metric (eo_vars out) =
         map (\<lambda>d. (batch_logits env act (model\<lparr>training := False\<rparr>) d, batch_y d)) loader
     \<and> eo_metric_vals out ''Accuracy'' =
         env_acc_compute env nc 0 (ev_acc_metric (eo_vars out)) ''Accuracy''
     \<and> (writer \<noteq> None \<longrightarrow> ''Accuracy'' \<in> dom (eo_metric_vals out))
     \<and> eo_metric_vals out ''Average-Loss'' =
         Some (PFloat
           (sum_list
              (map (\<lambda>d. env_loss env loss_fn
                          (batch_logits env act (model\<lparr>training := False\<rparr>) d) (batch_y d))
                 loader) / nb))"
    if o: "eval_model env act model attr loader nb nc loss_fn writer epoch gn = Inr out" for out
    using eval_model_returns [OF o] w [OF o] by simp
  show ?thesis
  proof (intro conjI allI impI)
    fix st x
    assume "run_state (main env a) = Some st \<and> x \<in> set (ms_evals st)"
    then show "snd (snd x) = Some GROUP_NAMES"
      using g by blast
  qed (use r n in simp_all)
qed

theorem eval_model_groups_and_accuracy_witness:
  "(\<exists>out.
      eval_model example_env example_activator example_model (Some example_attributor)
        [example_eval_batch] (1 / 2) 2 (BCEWithLogitsLoss None) (Some []) (Some 0)
        (Some GROUP_NAMES) = Inr out
    \<and> ev_group_names (eo_vars out) = Some GROUP_NAMES
    \<and> ev_grouped_accuracy (eo_vars out) = [(2, [[1, 0], [0, 1]], 0)]
    \<and> eo_metric_vals out ''Accuracy'' = Some (PFloat (1 / 2))
    \<and> eo_metric_vals out ''Average-Loss'' = Some (PFloat 6))
   \<and> (\<exists>st. run_state (main example_env example_args) = Some st
         \<and> map fst (ms_evals st) = [''val'', ''val'', ''test'', ''test'']
         \<and> list_all (\<lambda>x. snd (snd x) = Some GROUP_NAMES) (ms_evals st))"
proof -
  have "case eval_model example_env example_activator example_model (Some example_attributor)
          [example_eval_batch] (1 / 2) 2 (BCEWithLogitsLoss None) (Some []) (Some 0)
          (Some GROUP_NAMES) of Inl err \<Rightarrow> False | Inr out \<Rightarrow> True"
    by code_simp
  then obtain out where
    out: "eval_model example_env example_activator example_model (Some example_attributor)
        [example_eval_batch] (1 / 2) 2 (BCEWithLogitsLoss None) (Some []) (Some 0)
        (Some GROUP_NAMES) = Inr out"
    by (auto split: sum.splits)
  have "case run_state (main example_env example_args) of
          None \<Rightarrow> False
        | Some st \<Rightarrow> map fst (ms_evals st) = [''val'', ''val'', ''test'', ''test'']"
    by code_simp
  then obtain st where
    st: "run_state (main example_env example_args) = Some st"
      "map fst (ms_evals st) = [''val'', ''val'', ''test'', ''test'']"
    by (auto split: option.splits)
  note t = eval_model_groups_and_accuracy [where env = example_env
      and act = example_activator and model = example_model
      and attr = "Some example_attributor" and loader = "[example_eval_batch]"
      and nb = "1 / 2" and nc = 2 and loss_fn = "BCEWithLogitsLoss None"
      and writer = "Some []" and epoch = "Some 0" and gn = "Some GROUP_NAMES"
      and a = example_args]
  from t out have
    o: "ev_group_names (eo_vars out) = Some GROUP_NAMES
      \<and> ev_grouped_accuracy (eo_vars out) = [(2, [[1, 0], [0, 1]], 0)]
      \<and> eo_metric_vals out ''Accuracy'' = Some (PFloat (1 / 2))
      \<and> eo_metric_vals out ''Average-Loss'' = Some (PFloat 6)"
    by (simp add: example_env_def example_eval_batch_def example_metrics_def
        batch_logits_def)
  from t st(1) have "\<forall>x \<in> set (ms_evals st). snd (snd x) = Some GROUP_NAMES"
    by blast
  then have "list_all (\<lambda>x. snd (snd x) = Some GROUP_NAMES) (ms_evals st)"
    by (simp add: list_all_iff)
  with st have m: "\<exists>st. run_state (main example_env example_args) = Some st
      \<and> map fst (ms_evals st) = [''val'', ''val'', ''test'', ''test'']
      \<and> list_all (\<lambda>x. snd (snd x) = Some GROUP_NAMES) (ms_evals st)"
    by (rule_tac x = st in exI) simp
  from out o have "\<exists>out.
      eval_model example_env example_activator example_model (Some example_attributor)
        [example_eval_batch] (1 / 2) 2 (BCEWithLogitsLoss None) (Some []) (Some 0)
        (Some GROUP_NAMES) = Inr out
    \<and> ev_group_names (eo_vars out) = Some GROUP_NAMES
    \<and> ev_grouped_accuracy (eo_vars out) = [(2, [[1, 0], [0, 1]], 0)]
    \<and> eo_metric_vals out ''Accuracy'' = Some (PFloat (1 / 2))
    \<and> eo_metric_vals out ''Average-Loss'' = Some (PFloat 6)"
    by (rule_tac x = out in exI) simp
  with m show ?thesis
    by (rule_tac conjI)
qed

end
